theory Spec2Isabelle
  imports Complex_Main
begin

section \<open>Numbers, arrays and strings of the host language\<close>

text \<open>
  The application is a React component written in TypeScript.  A \<open>number\<close> of the
  source is an IEEE 754 double; such a value is represented by the rational it denotes,
  and an operation that rounds (the division and the subtractions of the aspect-ratio
  bucketing) is followed by \<open>to_double\<close> below.  Array indices and the rotation angle
  are integers.  Where the source divides, the divisor zero is written out, because the
  host language yields an infinity or a not-a-number there and HOL yields zero.
\<close>

datatype js_error = TypeError

text \<open>\<open>xs[i]\<close>: \<open>undefined\<close> outside the array, modelled as \<open>None\<close>.\<close>

definition js_index :: "'a list \<Rightarrow> int \<Rightarrow> 'a option" where
  "js_index xs i = (if 0 \<le> i \<and> i < int (length xs) then Some (xs ! nat i) else None)"

text \<open>\<open>xs.slice(0, e)\<close>: a negative end counts from the end of the array.\<close>

definition js_slice0 :: "'a list \<Rightarrow> int \<Rightarrow> 'a list" where
  "js_slice0 xs e = (if e < 0 then take (nat (int (length xs) + e)) xs else take (nat e) xs)"

text \<open>\<open>a % b\<close>: the remainder takes the sign of the dividend.\<close>

definition js_rem :: "int \<Rightarrow> int \<Rightarrow> int" where
  "js_rem a b = sgn a * (\<bar>a\<bar> mod \<bar>b\<bar>)"

section \<open>Double-precision arithmetic\<close>

text \<open>The number of binary digits of a natural number.\<close>

fun bits :: "nat \<Rightarrow> nat" where
  "bits n = (if n = 0 then 0 else Suc (bits (n div 2)))"

declare bits.simps [simp del]

definition pow2 :: "int \<Rightarrow> rat" where
  "pow2 e = (if 0 \<le> e then 2 ^ nat e else 1 / 2 ^ nat (- e))"

text \<open>The binary exponent of a positive rational: the largest \<open>e\<close> with \<open>2^e \<le> x\<close>.\<close>

definition ilog2 :: "rat \<Rightarrow> int" where
  "ilog2 x =
    (if 1 \<le> x then int (bits (nat \<lfloor>x\<rfloor>)) - 1
     else if pow2 (int (bits (nat \<lfloor>1 / x\<rfloor>)) - 1) = 1 / x
          then 1 - int (bits (nat \<lfloor>1 / x\<rfloor>))
          else - int (bits (nat \<lfloor>1 / x\<rfloor>)))"

text \<open>Rounding to the nearest integer, a tie to the even one.\<close>

definition round_even :: "rat \<Rightarrow> int" where
  "round_even x =
    (if x - of_int \<lfloor>x\<rfloor> < 1 / 2 then \<lfloor>x\<rfloor>
     else if 1 / 2 < x - of_int \<lfloor>x\<rfloor> then \<lfloor>x\<rfloor> + 1
     else if even \<lfloor>x\<rfloor> then \<lfloor>x\<rfloor> else \<lfloor>x\<rfloor> + 1)"

text \<open>
  The exponent of the last place of a double of magnitude \<open>a\<close>: 53 significant binary
  digits, and the fixed spacing \<open>2^-1074\<close> of the subnormal range.
\<close>

definition ulp_exponent :: "rat \<Rightarrow> int" where
  "ulp_exponent a = max (ilog2 a - 52) (- 1074)"

text \<open>
  The double that an exact result is rounded to (IEEE 754 binary64, round to nearest,
  ties to even), as long as the result does not overflow.
\<close>

definition to_double :: "rat \<Rightarrow> rat" where
  "to_double x =
    (if x = 0 then 0
     else sgn x * (of_int (round_even (\<bar>x\<bar> / pow2 (ulp_exponent \<bar>x\<bar>))) * pow2 (ulp_exponent \<bar>x\<bar>)))"

text \<open>The rounded magnitude reaches \<open>2^1024\<close>: the result is an infinity.\<close>

definition overflows :: "rat \<Rightarrow> bool" where
  "overflows x = (1024 \<le> ilog2 \<bar>to_double x\<bar>)"

section \<open>Aspect-ratio bucketing\<close>

record ratio_preset =
  ratio_id :: string
  ratio_value :: rat

text \<open>The decimal literals of the source denote the doubles nearest to them.\<close>

definition ratios :: "ratio_preset list" where
  "ratios =
    [\<lparr>ratio_id = ''1:1'', ratio_value = to_double 1\<rparr>,
     \<lparr>ratio_id = ''3:4'', ratio_value = to_double (75 / 100)\<rparr>,
     \<lparr>ratio_id = ''4:3'', ratio_value = to_double (1333 / 1000)\<rparr>,
     \<lparr>ratio_id = ''9:16'', ratio_value = to_double (5625 / 10000)\<rparr>,
     \<lparr>ratio_id = ''16:9'', ratio_value = to_double (1777 / 1000)\<rparr>]"

text \<open>\<open>Math.abs(p.value - targetRatio)\<close>: the subtraction rounds, the absolute value does
  not.  The difference of a preset and a finite ratio does not overflow: it is within 2
  of the ratio, which is far less than half a unit in the last place of the largest
  double.\<close>

definition distance :: "rat \<Rightarrow> ratio_preset \<Rightarrow> rat" where
  "distance targetRatio p = \<bar>to_double (ratio_value p - targetRatio)\<bar>"

definition closer :: "rat \<Rightarrow> ratio_preset \<Rightarrow> ratio_preset \<Rightarrow> ratio_preset" where
  "closer targetRatio prev cur =
    (if distance targetRatio cur < distance targetRatio prev then cur else prev)"

text \<open>
  \<open>ratios.reduce(f)\<close> has no initial value: the first preset seeds the accumulator and
  the scan runs over the rest; the array is a non-empty literal, so the call cannot raise.
  The quotient \<open>width / height\<close> is rounded to a double.  With \<open>height = 0\<close> it is an
  infinity or not-a-number, and when it overflows it is an infinity; every comparison
  of the scan is then false and the first preset is kept.
\<close>

definition getClosestAspectRatio :: "rat \<Rightarrow> rat \<Rightarrow> string" where
  "getClosestAspectRatio w h =
    (if h = 0 \<or> overflows (w / h) then ratio_id (hd ratios)
     else ratio_id (foldl (closer (to_double (w / h))) (hd ratios) (tl ratios)))"

text \<open>
  Following the spec's words: the same left-to-right scan over the nominal values
  1, 0.75, 1.333, 0.5625 and 1.777 with the quotient and the differences taken exactly.
  It is compared with the function of the source below.
\<close>

definition nominal_ratios :: "ratio_preset list" where
  "nominal_ratios =
    [\<lparr>ratio_id = ''1:1'', ratio_value = 1\<rparr>,
     \<lparr>ratio_id = ''3:4'', ratio_value = 75 / 100\<rparr>,
     \<lparr>ratio_id = ''4:3'', ratio_value = 1333 / 1000\<rparr>,
     \<lparr>ratio_id = ''9:16'', ratio_value = 5625 / 10000\<rparr>,
     \<lparr>ratio_id = ''16:9'', ratio_value = 1777 / 1000\<rparr>]"

definition exact_closer :: "rat \<Rightarrow> ratio_preset \<Rightarrow> ratio_preset \<Rightarrow> ratio_preset" where
  "exact_closer ratio prev cur =
    (if \<bar>ratio_value cur - ratio\<bar> < \<bar>ratio_value prev - ratio\<bar> then cur else prev)"

definition closest_by_exact_difference :: "rat \<Rightarrow> rat \<Rightarrow> string" where
  "closest_by_exact_difference w h =
    ratio_id (foldl (exact_closer (w / h)) (hd nominal_ratios) (tl nominal_ratios))"

section \<open>Strings: data URIs\<close>

text \<open>\<open>s.split(c)\<close> for a one-character separator.\<close>

fun js_split :: "char \<Rightarrow> string \<Rightarrow> string list" where
  "js_split c [] = [[]]"
| "js_split c (x # xs) =
    (if x = c then [] # js_split c xs
     else (case js_split c xs of
             [] \<Rightarrow> [[x]]
           | y # ys \<Rightarrow> (x # y) # ys))"

text \<open>The first occurrence of a separator: the text before it and the text after it.\<close>

fun split_first :: "string \<Rightarrow> string \<Rightarrow> (string \<times> string) option" where
  "split_first sep [] = (if sep = [] then Some ([], []) else None)"
| "split_first sep (x # xs) =
    (if take (length sep) (x # xs) = sep then Some ([], drop (length sep) (x # xs))
     else map_option (\<lambda>(a, b). (x # a, b)) (split_first sep xs))"

definition line_terminator :: "char \<Rightarrow> bool" where
  "line_terminator c = (c = CHR 0x0A \<or> c = CHR 0x0D)"

text \<open>
  \<open>s.match(/^data:(.*?);base64,(.*)$/)\<close>: the dot matches no line terminator and the
  pattern is anchored at both ends, so a match needs a string free of line terminators
  that starts with \<open>data:\<close>; the lazy first group ends at the first \<open>;base64,\<close>.
  The result is the pair of groups.  A character of the model is a byte, so of the
  line terminators of the host language the line feed and the carriage return are
  modelled.
\<close>

definition match_data_uri :: "string \<Rightarrow> (string \<times> string) option" where
  "match_data_uri s =
    (if take 5 s = ''data:'' \<and> \<not> list_ex line_terminator s
     then split_first '';base64,'' (drop 5 s)
     else None)"

section \<open>Application state\<close>

datatype AppState = IDLE | UPLOADING | READY_TO_EDIT | PROCESSING | COMPLETE | ERROR

record ProcessedImage =
  originalData :: string
  mimeType :: string

record HistoryItem =
  item_image :: string
  item_prompt :: string
  item_width :: rat
  item_height :: rat

text \<open>The \<open>useState\<close> cells of the \<open>App\<close> component.\<close>

record App =
  appState :: AppState
  originalImage :: "ProcessedImage option"
  history :: "HistoryItem list"
  historyIndex :: int
  prompt :: string
  width :: rat
  height :: rat
  showCropper :: bool
  showResetConfirmation :: bool
  error :: "string option"

definition initialApp :: App where
  "initialApp =
    \<lparr>appState = IDLE, originalImage = None, history = [], historyIndex = - 1,
     prompt = [], width = 1024, height = 1024, showCropper = False,
     showResetConfirmation = False, error = None\<rparr>"

subsection \<open>Derived state\<close>

text \<open>\<open>history[historyIndex].image\<close> raises when the index is outside the array.\<close>

definition generatedImage :: "App \<Rightarrow> js_error + string option" where
  "generatedImage st =
    (if historyIndex st \<ge> 0
     then (case js_index (history st) (historyIndex st) of
             None \<Rightarrow> Inl TypeError
           | Some item \<Rightarrow> Inr (Some (item_image item)))
     else Inr None)"

definition canUndo :: "App \<Rightarrow> bool" where
  "canUndo st = (historyIndex st \<ge> 0)"

definition canRedo :: "App \<Rightarrow> bool" where
  "canRedo st = (historyIndex st < int (length (history st)) - 1)"

subsection \<open>Collaborators\<close>

text \<open>
  The remote edit service and the browser canvas are outside the program.  A call of
  \<open>editImageWithGemini\<close> either returns the raw base64 result or throws an error whose
  message is a string (empty when the error carries none).  The canvas either gives a
  2d context, and then the resized picture as a data URL, or none; the promise of
  \<open>resizeImage\<close> is taken to resolve, as it does once the picture has loaded.
\<close>

record gateway_request =
  req_base64 :: "string option"
  req_mimeType :: string
  req_prompt :: string
  req_aspectRatio :: string

datatype gateway_outcome = Throws string | Returns string

type_synonym gateway = "gateway_request \<Rightarrow> gateway_outcome"

type_synonym canvas = "string \<Rightarrow> rat \<Rightarrow> rat \<Rightarrow> string option"

definition resizeImage :: "canvas \<Rightarrow> string \<Rightarrow> rat \<Rightarrow> rat \<Rightarrow> string" where
  "resizeImage cv base64Str targetWidth targetHeight =
    (case cv base64Str targetWidth targetHeight of
       Some dataUrl \<Rightarrow> dataUrl
     | None \<Rightarrow> base64Str)"

text \<open>\<open>err.message || fallback\<close>: an empty message is falsy.\<close>

definition message_or :: "string \<Rightarrow> string \<Rightarrow> string" where
  "message_or msg fallback = (if msg = [] then fallback else msg)"

text \<open>The truncate-then-push of every handler that adds a checkpoint.\<close>

definition push_history :: "App \<Rightarrow> HistoryItem \<Rightarrow> HistoryItem list" where
  "push_history st newHistoryItem = js_slice0 (history st) (historyIndex st + 1) @ [newHistoryItem]"

subsection \<open>Handlers\<close>

definition handleImageSelected :: "App \<Rightarrow> ProcessedImage \<Rightarrow> App" where
  "handleImageSelected st img =
    st\<lparr>originalImage := Some img, history := [], historyIndex := - 1, prompt := [],
       error := None, appState := READY_TO_EDIT\<rparr>"

text \<open>The \<open>onload\<close> callback of the probe image, which arrives later with the natural size.\<close>

definition imageLoaded :: "App \<Rightarrow> rat \<Rightarrow> rat \<Rightarrow> App" where
  "imageLoaded st w h = st\<lparr>width := w, height := h\<rparr>"

definition handleCroppedImageSelected :: "App \<Rightarrow> string \<Rightarrow> App" where
  "handleCroppedImageSelected st croppedBase64 =
    st\<lparr>originalImage := Some \<lparr>originalData = croppedBase64, mimeType = ''image/png''\<rparr>,
       history := [], historyIndex := - 1, error := None, appState := READY_TO_EDIT,
       showCropper := False\<rparr>"

definition handleResetRequest :: "App \<Rightarrow> App" where
  "handleResetRequest st = st\<lparr>showResetConfirmation := True\<rparr>"

definition handleConfirmReset :: "App \<Rightarrow> App" where
  "handleConfirmReset st =
    st\<lparr>originalImage := None, history := [], historyIndex := - 1, prompt := [],
       width := 1024, height := 1024, error := None, appState := IDLE,
       showResetConfirmation := False\<rparr>"

text \<open>The request that \<open>handleGenerate\<close> sends: none without a source image.\<close>

definition generateRequest :: "App \<Rightarrow> string \<Rightarrow> gateway_request option" where
  "generateRequest st currentPrompt =
    (case originalImage st of
       None \<Rightarrow> None
     | Some orig \<Rightarrow>
         Some \<lparr>req_base64 = (case js_split CHR '','' (originalData orig) of
                              _ # b # _ \<Rightarrow> Some b | _ \<Rightarrow> None),
               req_mimeType = mimeType orig,
               req_prompt = currentPrompt,
               req_aspectRatio = getClosestAspectRatio (width st) (height st)\<rparr>)"

definition handleGenerate :: "canvas \<Rightarrow> gateway \<Rightarrow> App \<Rightarrow> string \<Rightarrow> App" where
  "handleGenerate cv edit st currentPrompt =
    (case generateRequest st currentPrompt of
       None \<Rightarrow> st
     | Some req \<Rightarrow>
         (case edit req of
            Throws msg \<Rightarrow>
              st\<lparr>error := Some (message_or msg ''Something went wrong during generation.''),
                 appState := ERROR\<rparr>
          | Returns resultBase64 \<Rightarrow>
              (let rawImage = ''data:image/png;base64,'' @ resultBase64;
                   resizedImage = resizeImage cv rawImage (width st) (height st);
                   newHistoryItem = \<lparr>item_image = resizedImage, item_prompt = currentPrompt,
                                     item_width = width st, item_height = height st\<rparr>;
                   newHistory = push_history st newHistoryItem
               in st\<lparr>error := None, history := newHistory,
                     historyIndex := int (length newHistory) - 1, appState := COMPLETE\<rparr>)))"

text \<open>\<open>generatedImage || originalImage?.originalData\<close>: an empty string is falsy.\<close>

definition sourceImage :: "App \<Rightarrow> js_error + string option" where
  "sourceImage st =
    (case generatedImage st of
       Inl e \<Rightarrow> Inl e
     | Inr g \<Rightarrow>
         Inr (case g of
                None \<Rightarrow> map_option originalData (originalImage st)
              | Some img \<Rightarrow> if img = [] then map_option originalData (originalImage st)
                           else Some img))"

text \<open>The request of \<open>handleDenoise\<close> and \<open>handleAutoEnhance\<close> for a source that is a
  data URI; none when the pattern does not match.\<close>

definition adjustRequest :: "App \<Rightarrow> string \<Rightarrow> string \<Rightarrow> gateway_request option" where
  "adjustRequest st src instruction =
    (case match_data_uri src of
       None \<Rightarrow> None
     | Some (mime, base64Data) \<Rightarrow>
         Some \<lparr>req_base64 = Some base64Data,
               req_mimeType = mime,
               req_prompt = instruction,
               req_aspectRatio = getClosestAspectRatio (width st) (height st)\<rparr>)"

text \<open>
  \<open>handleDenoise\<close> and \<open>handleAutoEnhance\<close> are the same function up to three
  constants: the instruction sent, the label of the new checkpoint and the fallback
  error message.
\<close>

definition handleAdjust ::
  "string \<Rightarrow> string \<Rightarrow> string \<Rightarrow> canvas \<Rightarrow> gateway \<Rightarrow> App \<Rightarrow> js_error + App" where
  "handleAdjust instruction label fallback cv edit st =
    (case sourceImage st of
       Inl e \<Rightarrow> Inl e
     | Inr None \<Rightarrow> Inr st
     | Inr (Some src) \<Rightarrow>
         if src = [] then Inr st
         else (case adjustRequest st src instruction of
                 None \<Rightarrow>
                   Inr (st\<lparr>error := Some (message_or ''Invalid image source data.'' fallback),
                           appState := ERROR\<rparr>)
               | Some req \<Rightarrow>
                   (case edit req of
                      Throws msg \<Rightarrow>
                        Inr (st\<lparr>error := Some (message_or msg fallback), appState := ERROR\<rparr>)
                    | Returns resultBase64 \<Rightarrow>
                        (let rawImage = ''data:image/png;base64,'' @ resultBase64;
                             resizedImage = resizeImage cv rawImage (width st) (height st);
                             newHistoryItem = \<lparr>item_image = resizedImage, item_prompt = label,
                                               item_width = width st, item_height = height st\<rparr>;
                             newHistory = push_history st newHistoryItem
                         in Inr (st\<lparr>error := None, history := newHistory,
                                    historyIndex := int (length newHistory) - 1,
                                    prompt := label, appState := COMPLETE\<rparr>)))))"

definition denoisePrompt :: string where
  "denoisePrompt = ''Remove all noise and grain from this image. Make it look clean, sharp and professional. Preserve all details and textures.''"

definition enhancePrompt :: string where
  "enhancePrompt = ''Automatically enhance this image. Improve color balance, contrast, sharpness, and lighting to make it look professional, vibrant, and high-quality. Preserve the main subject details.''"

definition handleDenoise :: "canvas \<Rightarrow> gateway \<Rightarrow> App \<Rightarrow> js_error + App" where
  "handleDenoise = handleAdjust denoisePrompt ''Remove Noise (AI)'' ''Denoising failed.''"

definition handleAutoEnhance :: "canvas \<Rightarrow> gateway \<Rightarrow> App \<Rightarrow> js_error + App" where
  "handleAutoEnhance = handleAdjust enhancePrompt ''Auto Enhance (AI)'' ''Auto enhancement failed.''"

definition handleApplyFilters :: "App \<Rightarrow> string \<Rightarrow> js_error + App" where
  "handleApplyFilters st newImage =
    (if historyIndex st < 0 then Inr st
     else (case js_index (history st) (historyIndex st) of
             None \<Rightarrow> Inl TypeError
           | Some currentItem \<Rightarrow>
               (let newHistoryItem = \<lparr>item_image = newImage, item_prompt = item_prompt currentItem,
                                      item_width = item_width currentItem,
                                      item_height = item_height currentItem\<rparr>;
                    newHistory = push_history st newHistoryItem
                in Inr (st\<lparr>history := newHistory,
                           historyIndex := int (length newHistory) - 1\<rparr>))))"

definition handleUndo :: "App \<Rightarrow> js_error + App" where
  "handleUndo st =
    (if \<not> canUndo st then Inr st
     else (let newIndex = historyIndex st - 1
           in if newIndex \<ge> 0
              then (case js_index (history st) newIndex of
                      None \<Rightarrow> Inl TypeError
                    | Some item \<Rightarrow>
                        Inr (st\<lparr>historyIndex := newIndex, prompt := item_prompt item,
                                width := item_width item, height := item_height item,
                                appState := COMPLETE\<rparr>))
              else Inr (st\<lparr>historyIndex := newIndex, appState := READY_TO_EDIT\<rparr>)))"

definition handleRedo :: "App \<Rightarrow> js_error + App" where
  "handleRedo st =
    (if \<not> canRedo st then Inr st
     else (let newIndex = historyIndex st + 1
           in (case js_index (history st) newIndex of
                 None \<Rightarrow> Inl TypeError
               | Some item \<Rightarrow>
                   Inr (st\<lparr>historyIndex := newIndex, prompt := item_prompt item,
                           width := item_width item, height := item_height item,
                           appState := COMPLETE\<rparr>))))"

subsection \<open>User actions and runs\<close>

text \<open>
  One constructor per entry point of the component: the handlers above, the setters
  that the prompt editor calls directly, and the two inline callbacks that open and
  close the cropper and close the reset dialog.  An action that talks to the remote
  service carries the service's behaviour for that call.  One operation is in flight
  at a time, so a handler runs from its call to its last state update in one step.
\<close>

datatype action =
    ImageSelected ProcessedImage
  | ImageLoaded rat rat
  | CroppedImageSelected string
  | ResetRequest
  | CancelReset
  | ConfirmReset
  | Generate string gateway
  | Denoise gateway
  | AutoEnhance gateway
  | ApplyFilters string
  | Undo
  | Redo
  | SetPrompt string
  | SetWidth rat
  | SetHeight rat
  | OpenCropper
  | CancelCropper

fun step :: "canvas \<Rightarrow> App \<Rightarrow> action \<Rightarrow> js_error + App" where
  "step cv st (ImageSelected img) = Inr (handleImageSelected st img)"
| "step cv st (ImageLoaded w h) = Inr (imageLoaded st w h)"
| "step cv st (CroppedImageSelected c) = Inr (handleCroppedImageSelected st c)"
| "step cv st ResetRequest = Inr (handleResetRequest st)"
| "step cv st CancelReset = Inr (st\<lparr>showResetConfirmation := False\<rparr>)"
| "step cv st ConfirmReset = Inr (handleConfirmReset st)"
| "step cv st (Generate p edit) = Inr (handleGenerate cv edit st p)"
| "step cv st (Denoise edit) = handleDenoise cv edit st"
| "step cv st (AutoEnhance edit) = handleAutoEnhance cv edit st"
| "step cv st (ApplyFilters newImage) = handleApplyFilters st newImage"
| "step cv st Undo = handleUndo st"
| "step cv st Redo = handleRedo st"
| "step cv st (SetPrompt p) = Inr (st\<lparr>prompt := p\<rparr>)"
| "step cv st (SetWidth w) = Inr (st\<lparr>width := w\<rparr>)"
| "step cv st (SetHeight h) = Inr (st\<lparr>height := h\<rparr>)"
| "step cv st OpenCropper = Inr (st\<lparr>showCropper := True\<rparr>)"
| "step cv st CancelCropper = Inr (st\<lparr>showCropper := False\<rparr>)"

fun run :: "canvas \<Rightarrow> App \<Rightarrow> action list \<Rightarrow> js_error + App" where
  "run cv st [] = Inr st"
| "run cv st (a # as) = (case step cv st a of Inl e \<Rightarrow> Inl e | Inr st' \<Rightarrow> run cv st' as)"

text \<open>The cursor is \<open>-1\<close> (the unedited source is shown) or the index of a checkpoint.\<close>

definition cursor_ok :: "App \<Rightarrow> bool" where
  "cursor_ok st = (- 1 \<le> historyIndex st \<and> historyIndex st \<le> int (length (history st)) - 1)"

text \<open>
  Following the spec's words ``the last user-entered prompt'': the text that the user
  most recently put into the prompt field (\<open>SetPrompt\<close> is the editor's change callback),
  starting from a given text.  It is compared below with what \<open>handleUndo\<close> leaves in
  the prompt field.
\<close>

fun lastUserPrompt :: "string \<Rightarrow> action list \<Rightarrow> string" where
  "lastUserPrompt cur [] = cur"
| "lastUserPrompt cur (SetPrompt p # as) = lastUserPrompt p as"
| "lastUserPrompt cur (a # as) = lastUserPrompt cur as"

subsection \<open>Collaborators used in the examples\<close>

text \<open>A browser without a 2d context, and a service that answers every call alike.\<close>

definition no_canvas :: canvas where
  "no_canvas base64Str w h = None"

definition gateway_returns :: "string \<Rightarrow> gateway" where
  "gateway_returns r req = Returns r"

definition gateway_throws :: "string \<Rightarrow> gateway" where
  "gateway_throws msg req = Throws msg"

text \<open>A service that hands back the base64 text it was sent.\<close>

definition gateway_echo :: gateway where
  "gateway_echo req = Returns (case req_base64 req of None \<Rightarrow> [] | Some b \<Rightarrow> b)"

definition sample_png :: ProcessedImage where
  "sample_png = \<lparr>originalData = ''data:image/png;base64,AAAA'', mimeType = ''image/png''\<rparr>"

text \<open>
  The state after selecting \<open>sample_png\<close>, generating twice with the prompts A and B
  and undoing once: two checkpoints, the first one selected.
\<close>

definition sample_state :: App where
  "sample_state =
    \<lparr>appState = COMPLETE, originalImage = Some sample_png,
     history =
       [\<lparr>item_image = ''data:image/png;base64,QUJD'', item_prompt = ''A'',
         item_width = 1024, item_height = 1024\<rparr>,
        \<lparr>item_image = ''data:image/png;base64,REVG'', item_prompt = ''B'',
         item_width = 1024, item_height = 1024\<rparr>],
     historyIndex = 0, prompt = ''A'', width = 1024, height = 1024,
     showCropper = False, showResetConfirmation = False, error = None\<rparr>"

section \<open>Result viewer: rotation of the pending adjustment\<close>

datatype direction = Cw | Ccw

definition handleRotate :: "int \<Rightarrow> direction \<Rightarrow> int" where
  "handleRotate prev d =
    (case d of
       Cw \<Rightarrow> js_rem (prev + 90) 360
     | Ccw \<Rightarrow> js_rem (prev - 90 + 360) 360)"

text \<open>
  The size of the canvas that the viewer's \<open>handleApplyFilters\<close> and \<open>handleDownload\<close>
  allocate for an image of the given width and height: (canvas width, canvas height).
\<close>

definition canvasSize :: "int \<Rightarrow> int \<Rightarrow> int \<Rightarrow> int \<times> int" where
  "canvasSize rotation imgWidth imgHeight =
    (if js_rem rotation 180 \<noteq> 0 then (imgHeight, imgWidth) else (imgWidth, imgHeight))"

text \<open>
  What changes the rotation: the two rotate buttons, the reset of the filters, and the
  effect that runs when the viewed image changes.  The rotation starts at 0.
\<close>

datatype rotation_action = Rotate direction | ResetFilters | ImageChanged

fun rotation_step :: "int \<Rightarrow> rotation_action \<Rightarrow> int" where
  "rotation_step r (Rotate d) = handleRotate r d"
| "rotation_step r ResetFilters = 0"
| "rotation_step r ImageChanged = 0"

definition rotation_after :: "rotation_action list \<Rightarrow> int" where
  "rotation_after acts = foldl rotation_step 0 acts"

text \<open>A multiple of 90 in \<open>[0, 360)\<close>.\<close>

definition quarter_turn :: "int \<Rightarrow> bool" where
  "quarter_turn r = (0 \<le> r \<and> r < 360 \<and> 90 dvd r)"

section \<open>Properties\<close>

subsection \<open>Evaluating double arithmetic\<close>

lemma floor_rat_numeral_div:
  "\<lfloor>(numeral a :: rat) / numeral b\<rfloor> = numeral a div numeral b"
  using floor_divide_of_int_eq [of "numeral a" "numeral b", where ?'a = rat] by simp

lemma floor_rat_one_div:
  "\<lfloor>(1 :: rat) / numeral b\<rfloor> = 1 div numeral b"
  using floor_divide_of_int_eq [of 1 "numeral b", where ?'a = rat] by simp

lemmas double_eval = to_double_def ulp_exponent_def ilog2_def bits.simps pow2_def
  round_even_def overflows_def floor_rat_numeral_div floor_rat_one_div

lemma ratios_values:
  "ratios =
    [\<lparr>ratio_id = ''1:1'', ratio_value = 1\<rparr>,
     \<lparr>ratio_id = ''3:4'', ratio_value = 3 / 4\<rparr>,
     \<lparr>ratio_id = ''4:3'', ratio_value = 6003298303284871 / 4503599627370496\<rparr>,
     \<lparr>ratio_id = ''9:16'', ratio_value = 9 / 16\<rparr>,
     \<lparr>ratio_id = ''16:9'', ratio_value = 8002896537837371 / 4503599627370496\<rparr>]"
  by (simp add: ratios_def double_eval)

lemmas bucket_eval = getClosestAspectRatio_def ratios_values closer_def distance_def double_eval

lemma getClosestAspectRatio_default_size:
  "getClosestAspectRatio 1024 1024 = ''1:1''"
  by (simp add: bucket_eval)

lemma bits_power_two: "bits (2 ^ n) = Suc n"
proof (induction n)
  case 0
  show ?case by (simp add: bits.simps)
next
  case (Suc n)
  have "bits (2 ^ Suc n) = Suc (bits (2 ^ Suc n div 2))"
    by (subst bits.simps) simp
  with Suc show ?case by simp
qed

lemma ilog2_power_two: "ilog2 (2 ^ n) = int n"
proof -
  have "\<lfloor>(2::rat) ^ n\<rfloor> = 2 ^ n"
    by (metis floor_of_int of_int_numeral of_int_power)
  moreover have "nat ((2::int) ^ n) = 2 ^ n"
    by (simp add: nat_power_eq)
  ultimately have "bits (nat \<lfloor>(2::rat) ^ n\<rfloor>) = Suc n"
    by (simp only: bits_power_two)
  moreover have "(1::rat) \<le> 2 ^ n" by simp
  ultimately show ?thesis
    unfolding ilog2_def by simp
qed

lemma round_even_of_int: "round_even (of_int k) = k"
  by (simp add: round_even_def)

lemma to_double_power_two:
  assumes "52 \<le> n"
  shows "to_double (2 ^ n) = 2 ^ n"
proof -
  have e: "ulp_exponent ((2::rat) ^ n) = int (n - 52)"
    using assms by (simp add: ulp_exponent_def ilog2_power_two)
  have p: "pow2 (int (n - 52)) = 2 ^ (n - 52)"
    by (simp add: pow2_def)
  have q: "(2::rat) ^ n / 2 ^ (n - 52) = of_int (2 ^ 52)"
    using assms by (simp add: power_diff)
  have "to_double (2 ^ n) = of_int (round_even (of_int (2 ^ 52))) * 2 ^ (n - 52)"
    unfolding to_double_def by (simp add: e p q del: of_int_numeral of_int_power)
  also have "\<dots> = 2 ^ 52 * 2 ^ (n - 52)"
    unfolding round_even_of_int by simp
  also have "\<dots> = 2 ^ (52 + (n - 52))"
    by (simp only: power_add)
  also have "\<dots> = 2 ^ n"
    using assms by simp
  finally show ?thesis .
qed

lemma overflows_power_two: "1024 \<le> n \<Longrightarrow> overflows (2 ^ n)"
  by (simp add: overflows_def to_double_power_two ilog2_power_two)

lemma overflow_example: "overflows (pow2 1023 / (1 / 2))"
proof -
  have "pow2 1023 / (1 / 2) = 2 ^ 1024"
    by (simp add: pow2_def)
  moreover have "overflows (2 ^ 1024)"
    by (rule overflows_power_two) simp
  ultimately show ?thesis by (simp only:)
qed

subsection \<open>The scan keeps the first preset of least distance\<close>

lemma foldl_closer_first_min:
  "\<exists>i < length (x # xs).
      foldl (closer t) x xs = (x # xs) ! i
    \<and> (\<forall>j < length (x # xs). distance t ((x # xs) ! i) \<le> distance t ((x # xs) ! j))
    \<and> (\<forall>j < i. distance t ((x # xs) ! i) < distance t ((x # xs) ! j))"
proof (induction xs rule: rev_induct)
  case Nil
  show ?case by simp
next
  case (snoc y ys)
  let ?d = "distance t"
  let ?zs = "x # ys"
  from snoc obtain i where i: "i < length ?zs"
    and r: "foldl (closer t) x ys = ?zs ! i"
    and le: "\<forall>j < length ?zs. ?d (?zs ! i) \<le> ?d (?zs ! j)"
    and lt: "\<forall>j < i. ?d (?zs ! i) < ?d (?zs ! j)"
    by blast
  have app: "x # ys @ [y] = ?zs @ [y]" by simp
  show ?case
  proof (cases "?d y < ?d (?zs ! i)")
    case True
    have res: "foldl (closer t) x (ys @ [y]) = (?zs @ [y]) ! length ?zs"
      using True r by (simp add: closer_def)
    have all: "\<forall>j < length (?zs @ [y]). ?d y \<le> ?d ((?zs @ [y]) ! j)"
    proof (intro allI impI)
      fix j assume "j < length (?zs @ [y])"
      then consider "j < length ?zs" | "j = length ?zs" by fastforce
      then show "?d y \<le> ?d ((?zs @ [y]) ! j)"
      proof cases
        case 1
        then have "(?zs @ [y]) ! j = ?zs ! j" by (simp only: nth_append if_True)
        with le 1 True show ?thesis by fastforce
      next
        case 2
        then show ?thesis by (simp only: nth_append_length order_refl)
      qed
    qed
    have strict: "\<forall>j < length ?zs. ?d y < ?d ((?zs @ [y]) ! j)"
    proof (intro allI impI)
      fix j assume j: "j < length ?zs"
      then have "(?zs @ [y]) ! j = ?zs ! j" by (simp only: nth_append if_True)
      with le j True show "?d y < ?d ((?zs @ [y]) ! j)" by fastforce
    qed
    have "(?zs @ [y]) ! length ?zs = y" by (simp only: nth_append_length)
    with res all strict show ?thesis
      unfolding app by (intro exI[of _ "length ?zs"]) simp
  next
    case False
    have res: "foldl (closer t) x (ys @ [y]) = ?zs ! i"
      using False r by (simp add: closer_def)
    have at_i: "(?zs @ [y]) ! i = ?zs ! i" using i by (simp only: nth_append if_True)
    have all: "\<forall>j < length (?zs @ [y]). ?d (?zs ! i) \<le> ?d ((?zs @ [y]) ! j)"
    proof (intro allI impI)
      fix j assume "j < length (?zs @ [y])"
      then consider "j < length ?zs" | "j = length ?zs" by fastforce
      then show "?d (?zs ! i) \<le> ?d ((?zs @ [y]) ! j)"
      proof cases
        case 1
        then have "(?zs @ [y]) ! j = ?zs ! j" by (simp only: nth_append if_True)
        with le 1 show ?thesis by simp
      next
        case 2
        then have "(?zs @ [y]) ! j = y" by (simp only: nth_append_length)
        with False show ?thesis by simp
      qed
    qed
    have strict: "\<forall>j < i. ?d (?zs ! i) < ?d ((?zs @ [y]) ! j)"
    proof (intro allI impI)
      fix j assume j: "j < i"
      with i have "j < length ?zs" by simp
      then have "(?zs @ [y]) ! j = ?zs ! j" by (simp only: nth_append if_True)
      with lt j show "?d (?zs ! i) < ?d ((?zs @ [y]) ! j)" by simp
    qed
    from i have "i < length (?zs @ [y])" by simp
    with res at_i all strict show ?thesis
      unfolding app by (intro exI[of _ i]) simp
  qed
qed

subsection \<open>The cursor stays inside the history\<close>

lemma push_history_eq:
  "- 1 \<le> historyIndex st \<Longrightarrow>
     push_history st item = take (nat (historyIndex st + 1)) (history st) @ [item]"
  by (simp add: push_history_def js_slice0_def)

lemma length_kept:
  "cursor_ok st \<Longrightarrow>
     int (length (take (nat (historyIndex st + 1)) (history st))) = historyIndex st + 1"
  by (auto simp: cursor_ok_def min_def)

lemma js_index_selected:
  "cursor_ok st \<Longrightarrow> 0 \<le> historyIndex st \<Longrightarrow>
     js_index (history st) (historyIndex st) = Some (history st ! nat (historyIndex st))"
  by (simp add: js_index_def cursor_ok_def)

lemma handleGenerate_cursor_ok:
  "cursor_ok st \<Longrightarrow> cursor_ok (handleGenerate cv edit st p)"
  by (simp add: handleGenerate_def cursor_ok_def push_history_def Let_def
      split: option.splits gateway_outcome.splits)

lemma generatedImage_in_range:
  "cursor_ok st \<Longrightarrow>
     generatedImage st =
       Inr (if historyIndex st \<ge> 0 then Some (item_image (history st ! nat (historyIndex st)))
            else None)"
  by (simp add: generatedImage_def cursor_ok_def js_index_def)

lemma sourceImage_in_range:
  "cursor_ok st \<Longrightarrow> \<exists>src. sourceImage st = Inr src"
  by (simp add: sourceImage_def generatedImage_in_range)

lemma handleAdjust_cursor_ok:
  assumes "cursor_ok st"
  shows "\<exists>st'. handleAdjust ins lab fb cv edit st = Inr st' \<and> cursor_ok st'"
proof -
  from sourceImage_in_range [OF assms] obtain src where src: "sourceImage st = Inr src" ..
  show ?thesis
    using assms unfolding handleAdjust_def src
    by (simp add: cursor_ok_def push_history_def Let_def
        split: option.splits gateway_outcome.splits)
qed

lemma handleApplyFilters_cursor_ok:
  "cursor_ok st \<Longrightarrow> \<exists>st'. handleApplyFilters st newImage = Inr st' \<and> cursor_ok st'"
  by (simp add: handleApplyFilters_def cursor_ok_def js_index_def push_history_def Let_def)

lemma handleUndo_cursor_ok:
  "cursor_ok st \<Longrightarrow> \<exists>st'. handleUndo st = Inr st' \<and> cursor_ok st'"
  by (simp add: handleUndo_def canUndo_def cursor_ok_def js_index_def Let_def)

lemma handleRedo_cursor_ok:
  "cursor_ok st \<Longrightarrow> \<exists>st'. handleRedo st = Inr st' \<and> cursor_ok st'"
  by (simp add: handleRedo_def canRedo_def cursor_ok_def js_index_def Let_def)

lemma step_cursor_ok:
  assumes "cursor_ok st"
  shows "\<exists>st'. step cv st a = Inr st' \<and> cursor_ok st'"
proof (cases a)
  case (Generate p edit)
  with assms show ?thesis by (simp add: handleGenerate_cursor_ok)
next
  case (Denoise edit)
  with assms show ?thesis by (simp add: handleDenoise_def handleAdjust_cursor_ok)
next
  case (AutoEnhance edit)
  with assms show ?thesis by (simp add: handleAutoEnhance_def handleAdjust_cursor_ok)
next
  case (ApplyFilters newImage)
  with assms show ?thesis by (simp add: handleApplyFilters_cursor_ok)
next
  case Undo
  with assms show ?thesis by (simp add: handleUndo_cursor_ok)
next
  case Redo
  with assms show ?thesis by (simp add: handleRedo_cursor_ok)
qed (use assms in \<open>simp_all add: cursor_ok_def handleImageSelected_def imageLoaded_def
      handleCroppedImageSelected_def handleResetRequest_def handleConfirmReset_def\<close>)

lemma run_cursor_ok:
  "cursor_ok st \<Longrightarrow> \<exists>st'. run cv st as = Inr st' \<and> cursor_ok st'"
proof (induction as arbitrary: st)
  case Nil
  then show ?case by simp
next
  case (Cons a as)
  from step_cursor_ok [OF Cons.prems] obtain st1
    where "step cv st a = Inr st1" and "cursor_ok st1" by blast
  with Cons.IH [of st1] show ?case by simp
qed

text \<open>
  C1.  Every sequence of user actions (appends by generate, denoise, enhance and bake,
  undo, redo, and every other entry point of the component), run from the initial state
  with its empty history, ends without an exception in a state whose cursor lies in
  \<open>[-1, length - 1]\<close>; there \<open>canUndo\<close> holds exactly when the cursor is at least 0 and
  \<open>canRedo\<close> exactly when the cursor is below \<open>length - 1\<close>.
\<close>

theorem history_cursor_invariant:
  "\<exists>st. run cv initialApp as = Inr st
      \<and> - 1 \<le> historyIndex st
      \<and> historyIndex st \<le> int (length (history st)) - 1
      \<and> (canUndo st \<longleftrightarrow> historyIndex st \<ge> 0)
      \<and> (canRedo st \<longleftrightarrow> historyIndex st < int (length (history st)) - 1)"
proof -
  have "cursor_ok initialApp" by (simp add: cursor_ok_def initialApp_def)
  from run_cursor_ok [OF this] obtain st
    where "run cv initialApp as = Inr st" and "cursor_ok st" by blast
  then show ?thesis by (auto simp: cursor_ok_def canUndo_def canRedo_def)
qed

theorem history_cursor_invariant_witness:
  "\<exists>st. run no_canvas initialApp
          [ImageSelected sample_png, Generate ''A'' (gateway_returns ''QUJD''),
           Denoise (gateway_returns ''REVG''), Undo, Undo, Undo, Redo,
           AutoEnhance (gateway_throws ''quota''), ApplyFilters ''data:image/png;base64,R0hJ'',
           Redo] = Inr st
      \<and> - 1 \<le> historyIndex st
      \<and> historyIndex st \<le> int (length (history st)) - 1
      \<and> (canUndo st \<longleftrightarrow> historyIndex st \<ge> 0)
      \<and> (canRedo st \<longleftrightarrow> historyIndex st < int (length (history st)) - 1)"
  by (rule history_cursor_invariant)

subsection \<open>Appending a checkpoint\<close>

lemma handleGenerate_success:
  assumes "cursor_ok st" "generateRequest st p = Some req" "edit req = Returns r"
  shows "handleGenerate cv edit st p =
    st\<lparr>error := None,
       history := take (nat (historyIndex st + 1)) (history st) @
         [\<lparr>item_image = resizeImage cv (''data:image/png;base64,'' @ r) (width st) (height st),
           item_prompt = p, item_width = width st, item_height = height st\<rparr>],
       historyIndex := historyIndex st + 1,
       appState := COMPLETE\<rparr>"
proof -
  from assms(1) have push: "push_history st item =
      take (nat (historyIndex st + 1)) (history st) @ [item]" for item
    by (simp add: push_history_eq cursor_ok_def)
  show ?thesis
    using assms(2,3) length_kept [OF assms(1)]
    by (simp add: handleGenerate_def Let_def push)
qed

lemma handleAdjust_success:
  assumes "cursor_ok st" "sourceImage st = Inr (Some src)" "src \<noteq> []"
    "adjustRequest st src ins = Some req" "edit req = Returns r"
  shows "handleAdjust ins lab fb cv edit st =
    Inr (st\<lparr>error := None,
       history := take (nat (historyIndex st + 1)) (history st) @
         [\<lparr>item_image = resizeImage cv (''data:image/png;base64,'' @ r) (width st) (height st),
           item_prompt = lab, item_width = width st, item_height = height st\<rparr>],
       historyIndex := historyIndex st + 1,
       prompt := lab,
       appState := COMPLETE\<rparr>)"
proof -
  from assms(1) have push: "push_history st item =
      take (nat (historyIndex st + 1)) (history st) @ [item]" for item
    by (simp add: push_history_eq cursor_ok_def)
  show ?thesis
    using assms(2-5) length_kept [OF assms(1)]
    by (simp add: handleAdjust_def Let_def push)
qed

lemma handleApplyFilters_selected:
  assumes "cursor_ok st" "0 \<le> historyIndex st"
  shows "handleApplyFilters st newImage =
    Inr (st\<lparr>history := take (nat (historyIndex st + 1)) (history st) @
         [\<lparr>item_image = newImage,
           item_prompt = item_prompt (history st ! nat (historyIndex st)),
           item_width = item_width (history st ! nat (historyIndex st)),
           item_height = item_height (history st ! nat (historyIndex st))\<rparr>],
       historyIndex := historyIndex st + 1\<rparr>)"
proof -
  from assms(1) have push: "push_history st item =
      take (nat (historyIndex st + 1)) (history st) @ [item]" for item
    by (simp add: push_history_eq cursor_ok_def)
  show ?thesis
    using assms(2) length_kept [OF assms(1)] js_index_selected [OF assms]
    by (simp add: handleApplyFilters_def Let_def push)
qed

lemma abc_undo_undo_d:
  "\<exists>s5 st.
      run cv (handleImageSelected initialApp img)
        [Generate a (gateway_returns r), Generate b (gateway_returns r),
         Generate c (gateway_returns r), Undo, Undo] = Inr s5
    \<and> length (history s5) = 3 \<and> historyIndex s5 = 0
    \<and> step cv s5 (Generate d (gateway_returns r)) = Inr st
    \<and> history st =
        [\<lparr>item_image = resizeImage cv (''data:image/png;base64,'' @ r) 1024 1024,
          item_prompt = a, item_width = 1024, item_height = 1024\<rparr>,
         \<lparr>item_image = resizeImage cv (''data:image/png;base64,'' @ r) 1024 1024,
          item_prompt = d, item_width = 1024, item_height = 1024\<rparr>]
    \<and> historyIndex st = 1
    \<and> \<not> canRedo st
    \<and> handleRedo st = Inr st"
  by (simp add: handleImageSelected_def initialApp_def handleGenerate_def generateRequest_def
      push_history_def js_slice0_def js_index_def Let_def handleUndo_def handleRedo_def
      canUndo_def canRedo_def gateway_returns_def)

lemma sample_state_reached:
  "run no_canvas initialApp
     [ImageSelected sample_png, SetPrompt ''A'', Generate ''A'' (gateway_returns ''QUJD''),
      SetPrompt ''B'', Generate ''B'' (gateway_returns ''REVG''), Undo] = Inr sample_state"
  by (simp add: sample_state_def sample_png_def initialApp_def handleImageSelected_def
      handleGenerate_def generateRequest_def gateway_returns_def resizeImage_def no_canvas_def
      push_history_def js_slice0_def js_index_def handleUndo_def canUndo_def Let_def)

text \<open>
  C2.  In a state whose cursor is in range, every successful generate, denoise, enhance
  and bake returns a state (no exception) whose history is the old history cut after
  the cursor followed by the new checkpoint, and whose cursor is the new last index.
  After generating with the prompts a, b, c, undoing twice (three checkpoints, cursor 0)
  and generating with d, the history is the checkpoint of a followed by the checkpoint
  of d, the cursor is 1 and redo changes nothing.
\<close>

theorem append_truncates_pushes_advances:
  "(cursor_ok st \<longrightarrow>
     (generateRequest st p = Some reqG \<and> edit reqG = Returns r \<longrightarrow>
        (\<exists>item. history (handleGenerate cv edit st p) =
                  take (nat (historyIndex st + 1)) (history st) @ [item]
          \<and> item_prompt item = p
          \<and> historyIndex (handleGenerate cv edit st p) =
              int (length (history (handleGenerate cv edit st p))) - 1))
   \<and> (sourceImage st = Inr (Some src) \<and> src \<noteq> [] \<and>
        adjustRequest st src denoisePrompt = Some reqD \<and> edit reqD = Returns r \<longrightarrow>
        (\<exists>st' item. handleDenoise cv edit st = Inr st'
          \<and> history st' = take (nat (historyIndex st + 1)) (history st) @ [item]
          \<and> item_prompt item = ''Remove Noise (AI)''
          \<and> historyIndex st' = int (length (history st')) - 1))
   \<and> (sourceImage st = Inr (Some src) \<and> src \<noteq> [] \<and>
        adjustRequest st src enhancePrompt = Some reqE \<and> edit reqE = Returns r \<longrightarrow>
        (\<exists>st' item. handleAutoEnhance cv edit st = Inr st'
          \<and> history st' = take (nat (historyIndex st + 1)) (history st) @ [item]
          \<and> item_prompt item = ''Auto Enhance (AI)''
          \<and> historyIndex st' = int (length (history st')) - 1))
   \<and> (0 \<le> historyIndex st \<longrightarrow>
        (\<exists>st' item. handleApplyFilters st newImage = Inr st'
          \<and> history st' = take (nat (historyIndex st + 1)) (history st) @ [item]
          \<and> item_image item = newImage
          \<and> historyIndex st' = int (length (history st')) - 1)))
 \<and> (\<exists>s5 st6.
      run cv (handleImageSelected initialApp img)
        [Generate a (gateway_returns r), Generate b (gateway_returns r),
         Generate c (gateway_returns r), Undo, Undo] = Inr s5
    \<and> length (history s5) = 3 \<and> historyIndex s5 = 0
    \<and> step cv s5 (Generate d (gateway_returns r)) = Inr st6
    \<and> history st6 =
        [\<lparr>item_image = resizeImage cv (''data:image/png;base64,'' @ r) 1024 1024,
          item_prompt = a, item_width = 1024, item_height = 1024\<rparr>,
         \<lparr>item_image = resizeImage cv (''data:image/png;base64,'' @ r) 1024 1024,
          item_prompt = d, item_width = 1024, item_height = 1024\<rparr>]
    \<and> historyIndex st6 = 1
    \<and> \<not> canRedo st6
    \<and> handleRedo st6 = Inr st6)"
proof (intro conjI impI)
  assume ok: "cursor_ok st"
  note len = length_kept [OF ok]
  {
    assume "generateRequest st p = Some reqG \<and> edit reqG = Returns r"
    then have "handleGenerate cv edit st p =
      st\<lparr>error := None,
       history := take (nat (historyIndex st + 1)) (history st) @
         [\<lparr>item_image = resizeImage cv (''data:image/png;base64,'' @ r) (width st) (height st),
           item_prompt = p, item_width = width st, item_height = height st\<rparr>],
       historyIndex := historyIndex st + 1,
       appState := COMPLETE\<rparr>"
      using handleGenerate_success [OF ok] by blast
    then show "\<exists>item. history (handleGenerate cv edit st p) =
                  take (nat (historyIndex st + 1)) (history st) @ [item]
          \<and> item_prompt item = p
          \<and> historyIndex (handleGenerate cv edit st p) =
              int (length (history (handleGenerate cv edit st p))) - 1"
      using len by simp
  }
  {
    assume "sourceImage st = Inr (Some src) \<and> src \<noteq> [] \<and>
        adjustRequest st src denoisePrompt = Some reqD \<and> edit reqD = Returns r"
    then show "\<exists>st' item. handleDenoise cv edit st = Inr st'
          \<and> history st' = take (nat (historyIndex st + 1)) (history st) @ [item]
          \<and> item_prompt item = ''Remove Noise (AI)''
          \<and> historyIndex st' = int (length (history st')) - 1"
      using len handleAdjust_success [OF ok, of src denoisePrompt reqD edit r]
      by (simp add: handleDenoise_def)
  }
  {
    assume "sourceImage st = Inr (Some src) \<and> src \<noteq> [] \<and>
        adjustRequest st src enhancePrompt = Some reqE \<and> edit reqE = Returns r"
    then show "\<exists>st' item. handleAutoEnhance cv edit st = Inr st'
          \<and> history st' = take (nat (historyIndex st + 1)) (history st) @ [item]
          \<and> item_prompt item = ''Auto Enhance (AI)''
          \<and> historyIndex st' = int (length (history st')) - 1"
      using len handleAdjust_success [OF ok, of src enhancePrompt reqE edit r]
      by (simp add: handleAutoEnhance_def)
  }
  {
    assume "0 \<le> historyIndex st"
    then show "\<exists>st' item. handleApplyFilters st newImage = Inr st'
          \<and> history st' = take (nat (historyIndex st + 1)) (history st) @ [item]
          \<and> item_image item = newImage
          \<and> historyIndex st' = int (length (history st')) - 1"
      using len handleApplyFilters_selected [OF ok, of newImage] by simp
  }
next
  show "\<exists>s5 st6.
      run cv (handleImageSelected initialApp img)
        [Generate a (gateway_returns r), Generate b (gateway_returns r),
         Generate c (gateway_returns r), Undo, Undo] = Inr s5
    \<and> length (history s5) = 3 \<and> historyIndex s5 = 0
    \<and> step cv s5 (Generate d (gateway_returns r)) = Inr st6
    \<and> history st6 =
        [\<lparr>item_image = resizeImage cv (''data:image/png;base64,'' @ r) 1024 1024,
          item_prompt = a, item_width = 1024, item_height = 1024\<rparr>,
         \<lparr>item_image = resizeImage cv (''data:image/png;base64,'' @ r) 1024 1024,
          item_prompt = d, item_width = 1024, item_height = 1024\<rparr>]
    \<and> historyIndex st6 = 1
    \<and> \<not> canRedo st6
    \<and> handleRedo st6 = Inr st6"
    by (rule abc_undo_undo_d)
qed


theorem append_truncates_pushes_advances_witness:
  "cursor_ok sample_state
 \<and> generateRequest sample_state ''C'' =
     Some \<lparr>req_base64 = Some ''AAAA'', req_mimeType = ''image/png'', req_prompt = ''C'',
           req_aspectRatio = ''1:1''\<rparr>
 \<and> sourceImage sample_state = Inr (Some ''data:image/png;base64,QUJD'')
 \<and> adjustRequest sample_state ''data:image/png;base64,QUJD'' denoisePrompt =
     Some \<lparr>req_base64 = Some ''QUJD'', req_mimeType = ''image/png'', req_prompt = denoisePrompt,
           req_aspectRatio = ''1:1''\<rparr>
 \<and> adjustRequest sample_state ''data:image/png;base64,QUJD'' enhancePrompt =
     Some \<lparr>req_base64 = Some ''QUJD'', req_mimeType = ''image/png'', req_prompt = enhancePrompt,
           req_aspectRatio = ''1:1''\<rparr>
 \<and> 0 \<le> historyIndex sample_state
 \<and> (\<exists>item. history (handleGenerate no_canvas (gateway_returns ''Q0ND'') sample_state ''C'') =
        take (nat (historyIndex sample_state + 1)) (history sample_state) @ [item]
      \<and> item_prompt item = ''C''
      \<and> historyIndex (handleGenerate no_canvas (gateway_returns ''Q0ND'') sample_state ''C'') =
          int (length (history
            (handleGenerate no_canvas (gateway_returns ''Q0ND'') sample_state ''C''))) - 1)
 \<and> (\<exists>st' item. handleDenoise no_canvas (gateway_returns ''Q0ND'') sample_state = Inr st'
      \<and> history st' = take (nat (historyIndex sample_state + 1)) (history sample_state) @ [item]
      \<and> item_prompt item = ''Remove Noise (AI)''
      \<and> historyIndex st' = int (length (history st')) - 1)
 \<and> (\<exists>st' item. handleAutoEnhance no_canvas (gateway_returns ''Q0ND'') sample_state = Inr st'
      \<and> history st' = take (nat (historyIndex sample_state + 1)) (history sample_state) @ [item]
      \<and> item_prompt item = ''Auto Enhance (AI)''
      \<and> historyIndex st' = int (length (history st')) - 1)
 \<and> (\<exists>st' item. handleApplyFilters sample_state ''data:image/png;base64,R0hJ'' = Inr st'
      \<and> history st' = take (nat (historyIndex sample_state + 1)) (history sample_state) @ [item]
      \<and> item_image item = ''data:image/png;base64,R0hJ''
      \<and> historyIndex st' = int (length (history st')) - 1)"
proof -
  have ok: "cursor_ok sample_state"
    by (simp add: cursor_ok_def sample_state_def)
  note ar = getClosestAspectRatio_default_size
  have g: "generateRequest sample_state ''C'' =
     Some \<lparr>req_base64 = Some ''AAAA'', req_mimeType = ''image/png'', req_prompt = ''C'',
           req_aspectRatio = ''1:1''\<rparr>"
    by (simp add: generateRequest_def sample_state_def sample_png_def ar)
  have src: "sourceImage sample_state = Inr (Some ''data:image/png;base64,QUJD'')"
    by (simp add: sourceImage_def generatedImage_def js_index_def sample_state_def)
  have m: "match_data_uri ''data:image/png;base64,QUJD'' = Some (''image/png'', ''QUJD'')"
    by (simp add: match_data_uri_def line_terminator_def)
  have d: "adjustRequest sample_state ''data:image/png;base64,QUJD'' ins =
     Some \<lparr>req_base64 = Some ''QUJD'', req_mimeType = ''image/png'', req_prompt = ins,
           req_aspectRatio = ''1:1''\<rparr>" for ins
    by (simp add: adjustRequest_def m) (simp add: sample_state_def ar)
  have i: "0 \<le> historyIndex sample_state"
    by (simp add: sample_state_def)
  have r: "gateway_returns ''Q0ND'' req = Returns ''Q0ND''" for req
    by (simp add: gateway_returns_def)
  from append_truncates_pushes_advances
    [where st = sample_state and p = "''C''" and edit = "gateway_returns ''Q0ND''"
       and r = "''Q0ND''" and cv = no_canvas and src = "''data:image/png;base64,QUJD''"
       and newImage = "''data:image/png;base64,R0hJ''"
       and reqG = "\<lparr>req_base64 = Some ''AAAA'', req_mimeType = ''image/png'',
                     req_prompt = ''C'', req_aspectRatio = ''1:1''\<rparr>"
       and reqD = "\<lparr>req_base64 = Some ''QUJD'', req_mimeType = ''image/png'',
                     req_prompt = denoisePrompt, req_aspectRatio = ''1:1''\<rparr>"
       and reqE = "\<lparr>req_base64 = Some ''QUJD'', req_mimeType = ''image/png'',
                     req_prompt = enhancePrompt, req_aspectRatio = ''1:1''\<rparr>"]
    ok g src d i r
  show ?thesis by simp
qed

subsection \<open>Undo\<close>

text \<open>
  C3 (as amended).  In a state whose cursor is in range and at least 0, undo moves the
  cursor back by one and leaves the history as it is.  When the new cursor is at least 0,
  the prompt text, target width and target height become those stored on the checkpoint
  that becomes current, and the session is Complete.  When the new cursor is \<open>-1\<close>, the
  prompt text, target width and target height stay as they were, and the session is
  ReadyToEdit.
\<close>

theorem handleUndo_restores_checkpoint_or_keeps_fields:
  "cursor_ok st \<and> 0 \<le> historyIndex st \<longrightarrow>
     (\<exists>st'. handleUndo st = Inr st'
        \<and> historyIndex st' = historyIndex st - 1
        \<and> history st' = history st
        \<and> (0 \<le> historyIndex st' \<longrightarrow>
              prompt st' = item_prompt (history st ! nat (historyIndex st'))
            \<and> width st' = item_width (history st ! nat (historyIndex st'))
            \<and> height st' = item_height (history st ! nat (historyIndex st'))
            \<and> appState st' = COMPLETE)
        \<and> (historyIndex st' = - 1 \<longrightarrow>
              prompt st' = prompt st \<and> width st' = width st \<and> height st' = height st
            \<and> appState st' = READY_TO_EDIT))"
  by (simp add: handleUndo_def canUndo_def cursor_ok_def js_index_def Let_def)

theorem handleUndo_restores_checkpoint_or_keeps_fields_witness:
  "cursor_ok sample_state \<and> 0 \<le> historyIndex sample_state
 \<and> (\<exists>st'. handleUndo sample_state = Inr st'
      \<and> historyIndex st' = - 1 \<and> history st' = history sample_state
      \<and> prompt st' = ''A'' \<and> width st' = 1024 \<and> height st' = 1024
      \<and> appState st' = READY_TO_EDIT)
 \<and> cursor_ok (sample_state\<lparr>historyIndex := 1, prompt := ''B'', width := 512\<rparr>)
 \<and> 0 \<le> historyIndex (sample_state\<lparr>historyIndex := 1, prompt := ''B'', width := 512\<rparr>)
 \<and> (\<exists>st'. handleUndo (sample_state\<lparr>historyIndex := 1, prompt := ''B'', width := 512\<rparr>) = Inr st'
      \<and> historyIndex st' = 0 \<and> history st' = history sample_state
      \<and> prompt st' = ''A'' \<and> width st' = 1024 \<and> height st' = 1024
      \<and> appState st' = COMPLETE)"
proof -
  have a: "cursor_ok sample_state \<and> 0 \<le> historyIndex sample_state"
    by (simp add: cursor_ok_def sample_state_def)
  have b: "cursor_ok (sample_state\<lparr>historyIndex := 1, prompt := ''B'', width := 512\<rparr>)
      \<and> 0 \<le> historyIndex (sample_state\<lparr>historyIndex := 1, prompt := ''B'', width := 512\<rparr>)"
    by (simp add: cursor_ok_def sample_state_def)
  have f: "historyIndex sample_state = 0" "prompt sample_state = ''A''"
    "width sample_state = 1024" "height sample_state = 1024"
    "history sample_state ! 0 = \<lparr>item_image = ''data:image/png;base64,QUJD'', item_prompt = ''A'',
         item_width = 1024, item_height = 1024\<rparr>"
    by (simp_all add: sample_state_def)
  from handleUndo_restores_checkpoint_or_keeps_fields [of sample_state] a f
  have 1: "\<exists>st'. handleUndo sample_state = Inr st'
      \<and> historyIndex st' = - 1 \<and> history st' = history sample_state
      \<and> prompt st' = ''A'' \<and> width st' = 1024 \<and> height st' = 1024
      \<and> appState st' = READY_TO_EDIT"
    by auto
  from handleUndo_restores_checkpoint_or_keeps_fields
    [of "sample_state\<lparr>historyIndex := 1, prompt := ''B'', width := 512\<rparr>"] b f
  have 2: "\<exists>st'. handleUndo (sample_state\<lparr>historyIndex := 1, prompt := ''B'', width := 512\<rparr>) = Inr st'
      \<and> historyIndex st' = 0 \<and> history st' = history sample_state
      \<and> prompt st' = ''A'' \<and> width st' = 1024 \<and> height st' = 1024
      \<and> appState st' = COMPLETE"
    by auto
  from a b 1 2 show ?thesis by blast
qed

text \<open>
  C3 as stated fails.  The user selects an image, types ``make it blue'' and runs
  denoise, which overwrites the prompt field with its label; undo then moves the cursor
  from 0 to \<open>-1\<close> and the session is ReadyToEdit, but the prompt field still holds the
  label, not the last text the user entered.
\<close>

theorem handleUndo_reverts_to_user_prompt_counterexample:
  "map_sum id historyIndex
     (run no_canvas initialApp
        [ImageSelected sample_png, SetPrompt ''make it blue'', Denoise (gateway_returns ''QUJD'')])
     = Inr 0
 \<and> map_sum id historyIndex
     (run no_canvas initialApp
        [ImageSelected sample_png, SetPrompt ''make it blue'', Denoise (gateway_returns ''QUJD''),
         Undo])
     = Inr (- 1)
 \<and> map_sum id appState
     (run no_canvas initialApp
        [ImageSelected sample_png, SetPrompt ''make it blue'', Denoise (gateway_returns ''QUJD''),
         Undo])
     = Inr READY_TO_EDIT
 \<and> map_sum id prompt
     (run no_canvas initialApp
        [ImageSelected sample_png, SetPrompt ''make it blue'', Denoise (gateway_returns ''QUJD''),
         Undo])
     = Inr ''Remove Noise (AI)''
 \<and> lastUserPrompt []
        [ImageSelected sample_png, SetPrompt ''make it blue'', Denoise (gateway_returns ''QUJD''),
         Undo]
     = ''make it blue''
 \<and> map_sum id prompt
     (run no_canvas initialApp
        [ImageSelected sample_png, SetPrompt ''make it blue'', Denoise (gateway_returns ''QUJD''),
         Undo])
     \<noteq> Inr (lastUserPrompt []
        [ImageSelected sample_png, SetPrompt ''make it blue'', Denoise (gateway_returns ''QUJD''),
         Undo])"
proof -
  have m: "match_data_uri ''data:image/png;base64,AAAA'' = Some (''image/png'', ''AAAA'')"
    by (simp add: match_data_uri_def line_terminator_def)
  have d: "run no_canvas initialApp
        [ImageSelected sample_png, SetPrompt ''make it blue'', Denoise (gateway_returns ''QUJD'')]
     = Inr \<lparr>appState = COMPLETE, originalImage = Some sample_png,
            history = [\<lparr>item_image = ''data:image/png;base64,QUJD'',
                        item_prompt = ''Remove Noise (AI)'',
                        item_width = 1024, item_height = 1024\<rparr>],
            historyIndex = 0, prompt = ''Remove Noise (AI)'', width = 1024, height = 1024,
            showCropper = False, showResetConfirmation = False, error = None\<rparr>"
    by (simp add: initialApp_def handleImageSelected_def handleDenoise_def handleAdjust_def
        sourceImage_def generatedImage_def adjustRequest_def sample_png_def m
        gateway_returns_def resizeImage_def no_canvas_def push_history_def js_slice0_def Let_def)
  have split: "run cv st (as @ [a]) = (case run cv st as of Inl e \<Rightarrow> Inl e | Inr s \<Rightarrow> step cv s a)"
    for cv st as a
    by (induction as arbitrary: st) (auto split: sum.splits)
  have u: "run no_canvas initialApp
        ([ImageSelected sample_png, SetPrompt ''make it blue'', Denoise (gateway_returns ''QUJD'')]
          @ [Undo])
     = Inr \<lparr>appState = READY_TO_EDIT, originalImage = Some sample_png,
            history = [\<lparr>item_image = ''data:image/png;base64,QUJD'',
                        item_prompt = ''Remove Noise (AI)'',
                        item_width = 1024, item_height = 1024\<rparr>],
            historyIndex = - 1, prompt = ''Remove Noise (AI)'', width = 1024, height = 1024,
            showCropper = False, showResetConfirmation = False, error = None\<rparr>"
    unfolding split d by (simp add: handleUndo_def canUndo_def Let_def)
  show ?thesis using d u by simp
qed

subsection \<open>Replacing the source image\<close>

text \<open>
  C4 (as amended).  Both replacements of the source image, a new upload and an accepted
  crop, set the new source, put the session into ReadyToEdit, empty the history with the
  cursor at \<open>-1\<close> and clear the error.  A new upload also clears the prompt text; an
  accepted crop keeps the prompt text as it was.
\<close>

theorem source_replacement_resets_history:
  "appState (handleImageSelected st img) = READY_TO_EDIT
 \<and> originalImage (handleImageSelected st img) = Some img
 \<and> history (handleImageSelected st img) = []
 \<and> historyIndex (handleImageSelected st img) = - 1
 \<and> error (handleImageSelected st img) = None
 \<and> prompt (handleImageSelected st img) = []
 \<and> appState (handleCroppedImageSelected st croppedBase64) = READY_TO_EDIT
 \<and> originalImage (handleCroppedImageSelected st croppedBase64) =
      Some \<lparr>originalData = croppedBase64, mimeType = ''image/png''\<rparr>
 \<and> history (handleCroppedImageSelected st croppedBase64) = []
 \<and> historyIndex (handleCroppedImageSelected st croppedBase64) = - 1
 \<and> error (handleCroppedImageSelected st croppedBase64) = None
 \<and> prompt (handleCroppedImageSelected st croppedBase64) = prompt st"
  by (simp add: handleImageSelected_def handleCroppedImageSelected_def)

text \<open>
  C4 as stated fails for the crop: after an upload and the prompt ``make it blue'',
  accepting a crop leaves ``make it blue'' in the prompt field.
\<close>

theorem crop_accept_clears_prompt_counterexample:
  "map_sum id prompt
     (run no_canvas initialApp
        [ImageSelected sample_png, SetPrompt ''make it blue'', OpenCropper,
         CroppedImageSelected ''data:image/png;base64,Q1JP''])
     = Inr ''make it blue''
 \<and> map_sum id prompt
     (run no_canvas initialApp
        [ImageSelected sample_png, SetPrompt ''make it blue'', OpenCropper,
         CroppedImageSelected ''data:image/png;base64,Q1JP''])
     \<noteq> Inr []"
  by (simp add: initialApp_def handleImageSelected_def handleCroppedImageSelected_def)

subsection \<open>Failure of the remote service\<close>

lemma handleGenerate_failure:
  assumes "generateRequest st p = Some req" "edit req = Throws msg"
  shows "handleGenerate cv edit st p =
    st\<lparr>error := Some (message_or msg ''Something went wrong during generation.''),
       appState := ERROR\<rparr>"
  using assms by (simp add: handleGenerate_def)

lemma handleAdjust_failure:
  assumes "sourceImage st = Inr (Some src)" "src \<noteq> []"
    "adjustRequest st src ins = Some req" "edit req = Throws msg"
  shows "handleAdjust ins lab fb cv edit st =
    Inr (st\<lparr>error := Some (message_or msg fb), appState := ERROR\<rparr>)"
  using assms by (simp add: handleAdjust_def)

text \<open>
  C5.  When generate, denoise or enhance reaches the remote service and the service
  fails, the handler returns a state in Error whose error is the message of the failure
  (the handler's fixed fallback text when the failure has no message), and whose
  history and cursor are those before the call; undo is available exactly as before.
\<close>

theorem gateway_failure_keeps_history:
  "(generateRequest st p = Some reqG \<and> edit reqG = Throws msg \<longrightarrow>
      appState (handleGenerate cv edit st p) = ERROR
    \<and> error (handleGenerate cv edit st p) =
        Some (if msg = [] then ''Something went wrong during generation.'' else msg)
    \<and> history (handleGenerate cv edit st p) = history st
    \<and> historyIndex (handleGenerate cv edit st p) = historyIndex st
    \<and> canUndo (handleGenerate cv edit st p) = canUndo st)
 \<and> (sourceImage st = Inr (Some src) \<and> src \<noteq> [] \<and>
      adjustRequest st src denoisePrompt = Some reqD \<and> edit reqD = Throws msg \<longrightarrow>
      (\<exists>st'. handleDenoise cv edit st = Inr st'
        \<and> appState st' = ERROR
        \<and> error st' = Some (if msg = [] then ''Denoising failed.'' else msg)
        \<and> history st' = history st
        \<and> historyIndex st' = historyIndex st
        \<and> canUndo st' = canUndo st))
 \<and> (sourceImage st = Inr (Some src) \<and> src \<noteq> [] \<and>
      adjustRequest st src enhancePrompt = Some reqE \<and> edit reqE = Throws msg \<longrightarrow>
      (\<exists>st'. handleAutoEnhance cv edit st = Inr st'
        \<and> appState st' = ERROR
        \<and> error st' = Some (if msg = [] then ''Auto enhancement failed.'' else msg)
        \<and> history st' = history st
        \<and> historyIndex st' = historyIndex st
        \<and> canUndo st' = canUndo st))"
proof (intro conjI impI)
  assume "generateRequest st p = Some reqG \<and> edit reqG = Throws msg"
  then have g: "handleGenerate cv edit st p =
    st\<lparr>error := Some (message_or msg ''Something went wrong during generation.''),
       appState := ERROR\<rparr>"
    by (simp add: handleGenerate_failure)
  show "appState (handleGenerate cv edit st p) = ERROR"
    and "error (handleGenerate cv edit st p) =
        Some (if msg = [] then ''Something went wrong during generation.'' else msg)"
    and "history (handleGenerate cv edit st p) = history st"
    and "historyIndex (handleGenerate cv edit st p) = historyIndex st"
    and "canUndo (handleGenerate cv edit st p) = canUndo st"
    unfolding g by (simp_all add: message_or_def canUndo_def)
next
  assume "sourceImage st = Inr (Some src) \<and> src \<noteq> [] \<and>
      adjustRequest st src denoisePrompt = Some reqD \<and> edit reqD = Throws msg"
  then have "handleDenoise cv edit st =
      Inr (st\<lparr>error := Some (message_or msg ''Denoising failed.''), appState := ERROR\<rparr>)"
    unfolding handleDenoise_def by (simp add: handleAdjust_failure)
  then show "\<exists>st'. handleDenoise cv edit st = Inr st'
        \<and> appState st' = ERROR
        \<and> error st' = Some (if msg = [] then ''Denoising failed.'' else msg)
        \<and> history st' = history st
        \<and> historyIndex st' = historyIndex st
        \<and> canUndo st' = canUndo st"
    by (simp add: message_or_def canUndo_def)
next
  assume "sourceImage st = Inr (Some src) \<and> src \<noteq> [] \<and>
      adjustRequest st src enhancePrompt = Some reqE \<and> edit reqE = Throws msg"
  then have "handleAutoEnhance cv edit st =
      Inr (st\<lparr>error := Some (message_or msg ''Auto enhancement failed.''), appState := ERROR\<rparr>)"
    unfolding handleAutoEnhance_def by (simp add: handleAdjust_failure)
  then show "\<exists>st'. handleAutoEnhance cv edit st = Inr st'
        \<and> appState st' = ERROR
        \<and> error st' = Some (if msg = [] then ''Auto enhancement failed.'' else msg)
        \<and> history st' = history st
        \<and> historyIndex st' = historyIndex st
        \<and> canUndo st' = canUndo st"
    by (simp add: message_or_def canUndo_def)
qed

theorem gateway_failure_keeps_history_witness:
  "generateRequest sample_state ''C'' =
     Some \<lparr>req_base64 = Some ''AAAA'', req_mimeType = ''image/png'', req_prompt = ''C'',
           req_aspectRatio = ''1:1''\<rparr>
 \<and> sourceImage sample_state = Inr (Some ''data:image/png;base64,QUJD'')
 \<and> adjustRequest sample_state ''data:image/png;base64,QUJD'' denoisePrompt =
     Some \<lparr>req_base64 = Some ''QUJD'', req_mimeType = ''image/png'', req_prompt = denoisePrompt,
           req_aspectRatio = ''1:1''\<rparr>
 \<and> adjustRequest sample_state ''data:image/png;base64,QUJD'' enhancePrompt =
     Some \<lparr>req_base64 = Some ''QUJD'', req_mimeType = ''image/png'', req_prompt = enhancePrompt,
           req_aspectRatio = ''1:1''\<rparr>
 \<and> appState (handleGenerate no_canvas (gateway_throws ''quota exceeded'') sample_state ''C'') = ERROR
 \<and> error (handleGenerate no_canvas (gateway_throws ''quota exceeded'') sample_state ''C'') =
     Some ''quota exceeded''
 \<and> history (handleGenerate no_canvas (gateway_throws ''quota exceeded'') sample_state ''C'') =
     history sample_state
 \<and> historyIndex (handleGenerate no_canvas (gateway_throws ''quota exceeded'') sample_state ''C'') = 0
 \<and> (\<exists>st'. handleDenoise no_canvas (gateway_throws ''quota exceeded'') sample_state = Inr st'
      \<and> appState st' = ERROR \<and> error st' = Some ''quota exceeded''
      \<and> history st' = history sample_state \<and> historyIndex st' = 0)
 \<and> (\<exists>st'. handleAutoEnhance no_canvas (gateway_throws ''quota exceeded'') sample_state = Inr st'
      \<and> appState st' = ERROR \<and> error st' = Some ''quota exceeded''
      \<and> history st' = history sample_state \<and> historyIndex st' = 0)"
proof -
  note ar = getClosestAspectRatio_default_size
  have g: "generateRequest sample_state ''C'' =
     Some \<lparr>req_base64 = Some ''AAAA'', req_mimeType = ''image/png'', req_prompt = ''C'',
           req_aspectRatio = ''1:1''\<rparr>"
    by (simp add: generateRequest_def sample_state_def sample_png_def ar)
  have src: "sourceImage sample_state = Inr (Some ''data:image/png;base64,QUJD'')"
    by (simp add: sourceImage_def generatedImage_def js_index_def sample_state_def)
  have m: "match_data_uri ''data:image/png;base64,QUJD'' = Some (''image/png'', ''QUJD'')"
    by (simp add: match_data_uri_def line_terminator_def)
  have d: "adjustRequest sample_state ''data:image/png;base64,QUJD'' ins =
     Some \<lparr>req_base64 = Some ''QUJD'', req_mimeType = ''image/png'', req_prompt = ins,
           req_aspectRatio = ''1:1''\<rparr>" for ins
    by (simp add: adjustRequest_def m) (simp add: sample_state_def ar)
  have i: "historyIndex sample_state = 0"
    by (simp add: sample_state_def)
  have r: "gateway_throws ''quota exceeded'' req = Throws ''quota exceeded''" for req
    by (simp add: gateway_throws_def)
  from gateway_failure_keeps_history
    [where st = sample_state and p = "''C''" and edit = "gateway_throws ''quota exceeded''"
       and msg = "''quota exceeded''" and cv = no_canvas
       and src = "''data:image/png;base64,QUJD''"
       and reqG = "\<lparr>req_base64 = Some ''AAAA'', req_mimeType = ''image/png'',
                     req_prompt = ''C'', req_aspectRatio = ''1:1''\<rparr>"
       and reqD = "\<lparr>req_base64 = Some ''QUJD'', req_mimeType = ''image/png'',
                     req_prompt = denoisePrompt, req_aspectRatio = ''1:1''\<rparr>"
       and reqE = "\<lparr>req_base64 = Some ''QUJD'', req_mimeType = ''image/png'',
                     req_prompt = enhancePrompt, req_aspectRatio = ''1:1''\<rparr>"]
    g src d i r
  show ?thesis by auto
qed

subsection \<open>Reset\<close>

text \<open>
  C6.  Requesting a reset changes nothing but the confirmation flag, which it raises:
  source image, history, cursor, prompt, dimensions, error and session state are as
  before.  Confirming the reset clears the source image, empties the history with the
  cursor at \<open>-1\<close>, clears prompt and error, sets the dimensions to 1024 by 1024, puts
  the session into Idle and lowers the confirmation flag.
\<close>

theorem reset_is_two_phase:
  "originalImage (handleResetRequest st) = originalImage st
 \<and> history (handleResetRequest st) = history st
 \<and> historyIndex (handleResetRequest st) = historyIndex st
 \<and> prompt (handleResetRequest st) = prompt st
 \<and> width (handleResetRequest st) = width st
 \<and> height (handleResetRequest st) = height st
 \<and> error (handleResetRequest st) = error st
 \<and> appState (handleResetRequest st) = appState st
 \<and> showCropper (handleResetRequest st) = showCropper st
 \<and> showResetConfirmation (handleResetRequest st) = True
 \<and> originalImage (handleConfirmReset st) = None
 \<and> history (handleConfirmReset st) = []
 \<and> historyIndex (handleConfirmReset st) = - 1
 \<and> prompt (handleConfirmReset st) = []
 \<and> width (handleConfirmReset st) = 1024
 \<and> height (handleConfirmReset st) = 1024
 \<and> error (handleConfirmReset st) = None
 \<and> appState (handleConfirmReset st) = IDLE
 \<and> showResetConfirmation (handleConfirmReset st) = False"
  by (simp add: handleResetRequest_def handleConfirmReset_def)

subsection \<open>Baking a local adjustment\<close>

text \<open>
  C7.  With the cursor below 0, baking returns the state unchanged.  With the cursor in
  range and at least 0, it cuts the history after the cursor and appends a checkpoint
  with the new pixels and with the prompt label, target width and target height of the
  checkpoint that was selected, and moves the cursor to it; nothing else changes.
\<close>

theorem bake_keeps_label_and_size:
  "(historyIndex st < 0 \<longrightarrow> handleApplyFilters st newImage = Inr st)
 \<and> (cursor_ok st \<and> 0 \<le> historyIndex st \<longrightarrow>
      handleApplyFilters st newImage =
        Inr (st\<lparr>history := take (nat (historyIndex st + 1)) (history st) @
                   [\<lparr>item_image = newImage,
                     item_prompt = item_prompt (history st ! nat (historyIndex st)),
                     item_width = item_width (history st ! nat (historyIndex st)),
                     item_height = item_height (history st ! nat (historyIndex st))\<rparr>],
                historyIndex := historyIndex st + 1\<rparr>))"
proof (intro conjI impI)
  assume "historyIndex st < 0"
  then show "handleApplyFilters st newImage = Inr st"
    by (simp add: handleApplyFilters_def)
next
  assume "cursor_ok st \<and> 0 \<le> historyIndex st"
  then show "handleApplyFilters st newImage =
    Inr (st\<lparr>history := take (nat (historyIndex st + 1)) (history st) @
         [\<lparr>item_image = newImage,
           item_prompt = item_prompt (history st ! nat (historyIndex st)),
           item_width = item_width (history st ! nat (historyIndex st)),
           item_height = item_height (history st ! nat (historyIndex st))\<rparr>],
       historyIndex := historyIndex st + 1\<rparr>)"
    by (simp add: handleApplyFilters_selected)
qed

theorem bake_keeps_label_and_size_witness:
  "historyIndex (handleImageSelected initialApp sample_png) < 0
 \<and> handleApplyFilters (handleImageSelected initialApp sample_png) ''data:image/png;base64,R0hJ'' =
     Inr (handleImageSelected initialApp sample_png)
 \<and> cursor_ok sample_state \<and> 0 \<le> historyIndex sample_state
 \<and> handleApplyFilters sample_state ''data:image/png;base64,R0hJ'' =
     Inr (sample_state
           \<lparr>history :=
              [\<lparr>item_image = ''data:image/png;base64,QUJD'', item_prompt = ''A'',
                item_width = 1024, item_height = 1024\<rparr>,
               \<lparr>item_image = ''data:image/png;base64,R0hJ'', item_prompt = ''A'',
                item_width = 1024, item_height = 1024\<rparr>],
            historyIndex := 1\<rparr>)"
proof -
  have a: "historyIndex (handleImageSelected initialApp sample_png) < 0"
    by (simp add: handleImageSelected_def)
  have b: "cursor_ok sample_state \<and> 0 \<le> historyIndex sample_state"
    by (simp add: cursor_ok_def sample_state_def)
  have c: "historyIndex sample_state = 0"
    and d: "history sample_state =
       [\<lparr>item_image = ''data:image/png;base64,QUJD'', item_prompt = ''A'',
         item_width = 1024, item_height = 1024\<rparr>,
        \<lparr>item_image = ''data:image/png;base64,REVG'', item_prompt = ''B'',
         item_width = 1024, item_height = 1024\<rparr>]"
    by (simp_all add: sample_state_def)
  from bake_keeps_label_and_size
         [of "handleImageSelected initialApp sample_png" "''data:image/png;base64,R0hJ''"]
       bake_keeps_label_and_size [of sample_state "''data:image/png;base64,R0hJ''"] a b
  show ?thesis by (simp add: c d)
qed

subsection \<open>Aspect-ratio bucketing\<close>

text \<open>
  C8 (as amended).  For positive width and height whose quotient does not overflow, the
  bucketing function returns the identifier of a preset whose distance to the ratio is
  least among the five presets, and every preset listed before it is strictly farther,
  where the ratio is the quotient \<open>width / height\<close> rounded to a double, a preset's value
  is the double nearest to 1, 0.75, 1.333, 0.5625 or 1.777, and a distance is the
  absolute value of the rounded difference of the two.  When the quotient overflows the
  first preset 1:1 is returned.  The identifiers are pairwise distinct, so the index
  determines the identifier.  In particular (1000, 1000) gives 1:1, (1920, 1080) gives
  16:9, (1080, 1920) gives 9:16 and (800, 600) gives 4:3.
\<close>

theorem getClosestAspectRatio_first_closest_in_doubles:
  "(0 < w \<and> 0 < h \<and> \<not> overflows (w / h) \<longrightarrow>
     (\<exists>i < length ratios.
         getClosestAspectRatio w h = ratio_id (ratios ! i)
       \<and> (\<forall>j < length ratios.
            distance (to_double (w / h)) (ratios ! i) \<le> distance (to_double (w / h)) (ratios ! j))
       \<and> (\<forall>j < i.
            distance (to_double (w / h)) (ratios ! i) < distance (to_double (w / h)) (ratios ! j))))
   \<and> (overflows (w / h) \<longrightarrow> getClosestAspectRatio w h = ''1:1'')
   \<and> map ratio_id ratios = [''1:1'', ''3:4'', ''4:3'', ''9:16'', ''16:9'']
   \<and> map ratio_value ratios =
        [1, 3 / 4, 6003298303284871 / 4503599627370496, 9 / 16,
         8002896537837371 / 4503599627370496]
   \<and> getClosestAspectRatio 1000 1000 = ''1:1''
   \<and> getClosestAspectRatio 1920 1080 = ''16:9''
   \<and> getClosestAspectRatio 1080 1920 = ''9:16''
   \<and> getClosestAspectRatio 800 600 = ''4:3''"
proof -
  have ne: "hd ratios # tl ratios = ratios" by (simp add: ratios_def)
  have general: "\<exists>i < length ratios.
         getClosestAspectRatio w h = ratio_id (ratios ! i)
       \<and> (\<forall>j < length ratios.
            distance (to_double (w / h)) (ratios ! i) \<le> distance (to_double (w / h)) (ratios ! j))
       \<and> (\<forall>j < i.
            distance (to_double (w / h)) (ratios ! i) < distance (to_double (w / h)) (ratios ! j))"
    if "0 < h" and "\<not> overflows (w / h)"
  proof -
    from foldl_closer_first_min [of "hd ratios" "tl ratios" "to_double (w / h)"]
    obtain i where "i < length ratios"
      and "foldl (closer (to_double (w / h))) (hd ratios) (tl ratios) = ratios ! i"
      and "\<forall>j < length ratios.
            distance (to_double (w / h)) (ratios ! i) \<le> distance (to_double (w / h)) (ratios ! j)"
      and "\<forall>j < i.
            distance (to_double (w / h)) (ratios ! i) < distance (to_double (w / h)) (ratios ! j)"
      unfolding ne by blast
    moreover from that have "h \<noteq> 0" by simp
    ultimately show ?thesis
      using that(2) unfolding getClosestAspectRatio_def by (intro exI[of _ i]) simp
  qed
  have inf: "getClosestAspectRatio w h = ''1:1''" if "overflows (w / h)"
    using that by (simp add: getClosestAspectRatio_def ratios_values)
  have ids: "map ratio_id ratios = [''1:1'', ''3:4'', ''4:3'', ''9:16'', ''16:9'']"
    by (simp add: ratios_values)
  have vals: "map ratio_value ratios =
        [1, 3 / 4, 6003298303284871 / 4503599627370496, 9 / 16,
         8002896537837371 / 4503599627370496]"
    by (simp add: ratios_values)
  have e1: "getClosestAspectRatio 1000 1000 = ''1:1''"
    by (simp add: bucket_eval)
  have e2: "getClosestAspectRatio 1920 1080 = ''16:9''"
    by (simp add: bucket_eval)
  have e3: "getClosestAspectRatio 1080 1920 = ''9:16''"
    by (simp add: bucket_eval)
  have e4: "getClosestAspectRatio 800 600 = ''4:3''"
    by (simp add: bucket_eval)
  from general inf ids vals e1 e2 e3 e4 show ?thesis by blast
qed

theorem getClosestAspectRatio_first_closest_in_doubles_witness:
  "(0::rat) < 21 \<and> (0::rat) < 32 \<and> \<not> overflows (21 / 32)
   \<and> (\<exists>i < length ratios.
         getClosestAspectRatio 21 32 = ratio_id (ratios ! i)
       \<and> (\<forall>j < length ratios.
            distance (to_double (21 / 32)) (ratios ! i) \<le> distance (to_double (21 / 32)) (ratios ! j))
       \<and> (\<forall>j < i.
            distance (to_double (21 / 32)) (ratios ! i) < distance (to_double (21 / 32)) (ratios ! j)))
   \<and> getClosestAspectRatio 21 32 = ''3:4''
   \<and> overflows (pow2 1023 / (1 / 2))
   \<and> getClosestAspectRatio (pow2 1023) (1 / 2) = ''1:1''"
proof -
  have a: "\<not> overflows (21 / 32)"
    by (simp add: double_eval)
  have b: "getClosestAspectRatio 21 32 = ''3:4''"
    by (simp add: bucket_eval)
  note c = overflow_example
  from getClosestAspectRatio_first_closest_in_doubles [of 21 32]
    getClosestAspectRatio_first_closest_in_doubles [of "pow2 1023" "1 / 2"] a b c
  show ?thesis by simp
qed

text \<open>
  C8 as stated fails.  The quotient of 2333 and 2000 lies exactly between 1 and 1.333,
  the two presets nearest to it, so the preset of least absolute difference that comes
  first is 1:1, which is what the scan in exact arithmetic returns; the function of the
  source returns 4:3, because the rounded difference to 1.333 is the smaller double.
\<close>

theorem getClosestAspectRatio_exact_tie_counterexample:
  "getClosestAspectRatio 2333 2000 = ''4:3''
 \<and> closest_by_exact_difference 2333 2000 = ''1:1''
 \<and> \<bar>(1::rat) - 2333 / 2000\<bar> = \<bar>1333 / 1000 - 2333 / 2000\<bar>
 \<and> \<bar>(1::rat) - 2333 / 2000\<bar> < \<bar>75 / 100 - 2333 / 2000\<bar>
 \<and> \<bar>(1::rat) - 2333 / 2000\<bar> < \<bar>5625 / 10000 - 2333 / 2000\<bar>
 \<and> \<bar>(1::rat) - 2333 / 2000\<bar> < \<bar>1777 / 1000 - 2333 / 2000\<bar>
 \<and> distance (to_double (2333 / 2000)) (ratios ! 0) = 749849337957188 / 4503599627370496
 \<and> distance (to_double (2333 / 2000)) (ratios ! 2) = 749849337957187 / 4503599627370496"
proof -
  have "getClosestAspectRatio 2333 2000 = ''4:3''"
    by (simp add: bucket_eval)
  moreover have "closest_by_exact_difference 2333 2000 = ''1:1''"
    by (simp add: closest_by_exact_difference_def nominal_ratios_def exact_closer_def)
  moreover have "distance (to_double (2333 / 2000)) (ratios ! 0) =
      749849337957188 / 4503599627370496"
    by (simp add: ratios_values distance_def double_eval)
  moreover have "distance (to_double (2333 / 2000)) (ratios ! 2) =
      749849337957187 / 4503599627370496"
    by (simp add: ratios_values distance_def double_eval)
  ultimately show ?thesis by simp
qed

subsection \<open>Rotation\<close>

lemma quarter_turn_cases:
  "0 \<le> r \<Longrightarrow> r < 360 \<Longrightarrow> 90 dvd r \<Longrightarrow> r = 0 \<or> r = 90 \<or> r = 180 \<or> r = (270::int)"
  by (elim dvdE) auto

lemma handleRotate_values:
  "handleRotate 0 Cw = 90" "handleRotate 90 Cw = 180"
  "handleRotate 180 Cw = 270" "handleRotate 270 Cw = 0"
  "handleRotate 0 Ccw = 270" "handleRotate 90 Ccw = 0"
  "handleRotate 180 Ccw = 90" "handleRotate 270 Ccw = 180"
  by (simp_all add: handleRotate_def js_rem_def)

lemma js_rem_180_values:
  "js_rem 0 180 = 0" "js_rem 90 180 = 90" "js_rem 180 180 = 0" "js_rem 270 180 = 90"
  by (simp_all add: js_rem_def)

lemma handleRotate_quarter_turn:
  assumes "quarter_turn r"
  shows "quarter_turn (handleRotate r d)"
proof -
  from assms have "r = 0 \<or> r = 90 \<or> r = 180 \<or> r = 270"
    by (simp add: quarter_turn_def quarter_turn_cases)
  then show ?thesis
    by (cases d) (auto simp: handleRotate_values quarter_turn_def)
qed

lemma rotation_step_quarter_turn:
  "quarter_turn r \<Longrightarrow> quarter_turn (rotation_step r a)"
  by (cases a) (simp_all add: handleRotate_quarter_turn, simp_all add: quarter_turn_def)

lemma foldl_rotation_step_quarter_turn:
  "quarter_turn r \<Longrightarrow> quarter_turn (foldl rotation_step r acts)"
  by (induction acts arbitrary: r) (simp_all add: rotation_step_quarter_turn)

text \<open>
  C9.  After any sequence of rotate clicks and resets the rotation is a multiple of 90
  in \<open>[0, 360)\<close>.  Two clockwise steps from the unrotated state give the rotation 180,
  at which the canvas has the width and height of the image; from any such rotation two
  clockwise steps add 180 modulo 360 and give the canvas size that the rotation had
  before them, while one step in either direction exchanges canvas width and height.
  A rotation not divisible by 180 gives a canvas with the image's height as width and
  its width as height; one divisible by 180 gives the image's own width and height.
\<close>

theorem rotation_quarter_turns:
  "0 \<le> rotation_after acts \<and> rotation_after acts < 360 \<and> 90 dvd rotation_after acts
 \<and> handleRotate (handleRotate 0 Cw) Cw = 180
 \<and> canvasSize 180 w h = (w, h)
 \<and> canvasSize (handleRotate (handleRotate 0 Cw) Cw) w h = canvasSize 180 w h
 \<and> canvasSize (handleRotate 0 Cw) w h = (h, w)
 \<and> (0 \<le> r \<and> r < 360 \<and> 90 dvd r \<longrightarrow>
       handleRotate (handleRotate r Cw) Cw = js_rem (r + 180) 360
     \<and> canvasSize (handleRotate (handleRotate r Cw) Cw) w h = canvasSize r w h
     \<and> canvasSize (handleRotate r d) w h = prod.swap (canvasSize r w h))
 \<and> (js_rem r 180 \<noteq> 0 \<longrightarrow> canvasSize r w h = (h, w))
 \<and> (js_rem r 180 = 0 \<longrightarrow> canvasSize r w h = (w, h))"
proof (intro conjI impI)
  have "quarter_turn (rotation_after acts)"
    unfolding rotation_after_def
    by (rule foldl_rotation_step_quarter_turn) (simp add: quarter_turn_def)
  then show "0 \<le> rotation_after acts" "rotation_after acts < 360" "90 dvd rotation_after acts"
    by (simp_all add: quarter_turn_def)
next
  show "handleRotate (handleRotate 0 Cw) Cw = 180"
    by (simp add: handleRotate_values)
  show "canvasSize 180 w h = (w, h)"
    by (simp add: canvasSize_def js_rem_180_values)
  show "canvasSize (handleRotate (handleRotate 0 Cw) Cw) w h = canvasSize 180 w h"
    by (simp add: handleRotate_values)
  show "canvasSize (handleRotate 0 Cw) w h = (h, w)"
    by (simp add: handleRotate_values canvasSize_def js_rem_180_values)
next
  assume "0 \<le> r \<and> r < 360 \<and> 90 dvd r"
  then have r: "r = 0 \<or> r = 90 \<or> r = 180 \<or> r = 270"
    by (simp add: quarter_turn_cases)
  from r show "handleRotate (handleRotate r Cw) Cw = js_rem (r + 180) 360"
    by (auto simp: handleRotate_values) (simp_all add: js_rem_def)
  from r show "canvasSize (handleRotate (handleRotate r Cw) Cw) w h = canvasSize r w h"
    by (auto simp: handleRotate_values canvasSize_def js_rem_180_values)
  from r show "canvasSize (handleRotate r d) w h = prod.swap (canvasSize r w h)"
    by (cases d) (auto simp: handleRotate_values canvasSize_def js_rem_180_values)
next
  assume "js_rem r 180 \<noteq> 0"
  then show "canvasSize r w h = (h, w)" by (simp add: canvasSize_def)
next
  assume "js_rem r 180 = 0"
  then show "canvasSize r w h = (w, h)" by (simp add: canvasSize_def)
qed

theorem rotation_quarter_turns_witness:
  "(0::int) \<le> 270 \<and> (270::int) < 360 \<and> (90::int) dvd 270
 \<and> js_rem 270 180 \<noteq> 0
 \<and> js_rem 180 180 = 0
 \<and> rotation_after [Rotate Cw, Rotate Cw, Rotate Cw] = 270
 \<and> handleRotate (handleRotate 270 Cw) Cw = 90
 \<and> canvasSize (handleRotate (handleRotate 270 Cw) Cw) 640 480 = (480, 640)
 \<and> canvasSize 270 640 480 = (480, 640)
 \<and> canvasSize (handleRotate 270 Ccw) 640 480 = (640, 480)
 \<and> canvasSize 180 640 480 = (640, 480)"
proof -
  have a: "(0::int) \<le> 270 \<and> (270::int) < 360 \<and> (90::int) dvd 270" by simp
  have b: "js_rem 270 180 \<noteq> 0" "js_rem 180 180 = 0" "js_rem (270 + 180) 360 = 90"
    by (simp_all add: js_rem_def)
  have c: "rotation_after [Rotate Cw, Rotate Cw, Rotate Cw] = 270"
    by (simp add: rotation_after_def handleRotate_values)
  from rotation_quarter_turns [of "[]" 640 480 270 Ccw] rotation_quarter_turns [of "[]" 640 480 180 Cw]
    a b c
  show ?thesis by (simp add: handleRotate_values canvasSize_def)
qed

subsection \<open>What is sent to the remote service\<close>

lemma js_split_without_separator:
  "c \<notin> set s \<Longrightarrow> js_split c s = [s]"
  by (induction s) auto

lemma js_split_at_separator:
  "c \<notin> set a \<Longrightarrow> c \<notin> set b \<Longrightarrow> js_split c (a @ c # b) = [a, b]"
  by (induction a) (auto simp: js_split_without_separator)

lemma split_first_at_separator:
  assumes "sep \<noteq> []" "hd sep \<notin> set a"
  shows "split_first sep (a @ sep @ b) = Some (a, b)"
  using assms(2)
proof (induction a)
  case Nil
  from assms(1) obtain s ss where sep: "sep = s # ss" by (cases sep) auto
  show ?case unfolding sep by simp
next
  case (Cons x a)
  from assms(1) obtain s ss where sep: "sep = s # ss" by (cases sep) auto
  from Cons.prems have "x \<noteq> s" and "hd sep \<notin> set a" by (auto simp: sep)
  with Cons.IH show ?case by (simp add: sep)
qed

lemma match_data_uri_wellformed:
  assumes "\<not> list_ex line_terminator (mime @ payload)" "CHR '';'' \<notin> set mime"
  shows "match_data_uri (''data:'' @ mime @ '';base64,'' @ payload) = Some (mime, payload)"
proof -
  have "\<not> list_ex line_terminator (''data:'' @ mime @ '';base64,'' @ payload)"
    using assms(1) by (simp add: line_terminator_def)
  moreover have "split_first '';base64,'' (mime @ '';base64,'' @ payload) = Some (mime, payload)"
    using assms(2) by (intro split_first_at_separator) simp_all
  ultimately show ?thesis
    unfolding match_data_uri_def by simp
qed

lemma handleGenerate_outcome:
  assumes "cursor_ok st" "generateRequest st p = Some req"
  shows "handleGenerate cv edit st p =
    (case edit req of
       Throws msg \<Rightarrow>
         st\<lparr>error := Some (message_or msg ''Something went wrong during generation.''),
            appState := ERROR\<rparr>
     | Returns r \<Rightarrow>
         st\<lparr>error := None,
            history := take (nat (historyIndex st + 1)) (history st) @
              [\<lparr>item_image = resizeImage cv (''data:image/png;base64,'' @ r) (width st) (height st),
                item_prompt = p, item_width = width st, item_height = height st\<rparr>],
            historyIndex := historyIndex st + 1,
            appState := COMPLETE\<rparr>)"
proof (cases "edit req")
  case (Throws msg)
  with assms(2) show ?thesis by (simp add: handleGenerate_failure)
next
  case (Returns r)
  with assms show ?thesis by (simp add: handleGenerate_success)
qed

lemma handleAdjust_outcome:
  assumes "cursor_ok st" "sourceImage st = Inr (Some src)" "src \<noteq> []"
    "adjustRequest st src ins = Some req"
  shows "handleAdjust ins lab fb cv edit st =
    Inr (case edit req of
       Throws msg \<Rightarrow> st\<lparr>error := Some (message_or msg fb), appState := ERROR\<rparr>
     | Returns r \<Rightarrow>
         st\<lparr>error := None,
            history := take (nat (historyIndex st + 1)) (history st) @
              [\<lparr>item_image = resizeImage cv (''data:image/png;base64,'' @ r) (width st) (height st),
                item_prompt = lab, item_width = width st, item_height = height st\<rparr>],
            historyIndex := historyIndex st + 1,
            prompt := lab,
            appState := COMPLETE\<rparr>)"
proof (cases "edit req")
  case (Throws msg)
  with assms(2-4) show ?thesis by (simp add: handleAdjust_failure)
next
  case (Returns r)
  with assms show ?thesis by (simp add: handleAdjust_success)
qed

lemma sourceImage_cases:
  assumes "(cursor_ok st \<and> 0 \<le> historyIndex st \<and>
            src = item_image (history st ! nat (historyIndex st)))
         \<or> (historyIndex st = - 1 \<and> originalImage st = Some orig \<and> src = originalData orig)"
    and "src \<noteq> []"
  shows "cursor_ok st \<and> sourceImage st = Inr (Some src)"
  using assms
proof (elim disjE conjE)
  assume "cursor_ok st" "0 \<le> historyIndex st"
    "src = item_image (history st ! nat (historyIndex st))" "src \<noteq> []"
  then show ?thesis by (simp add: sourceImage_def generatedImage_in_range)
next
  assume "historyIndex st = - 1" "originalImage st = Some orig" "src = originalData orig"
  then show ?thesis by (simp add: sourceImage_def generatedImage_def cursor_ok_def)
qed

text \<open>
  C10.  With a source image set and the cursor in range, generate consults the remote
  service exactly at a request that carries the base64 part and the mime type of the
  source image, whatever the history and the cursor are: the handler's result is the
  Error state when the service throws at that request and the state with the new
  checkpoint made from the service's answer to that request when it returns.  For a
  source of the form \<open>prefix,body\<close> with one comma the base64 part sent is the body.
  Denoise and enhance take as their input the image of the selected checkpoint when the
  cursor is at least 0 and the source image when the cursor is \<open>-1\<close> (the input being
  a non-empty string, as every data URL is); each consults the service exactly at the
  request that carries the mime type and the base64 part matched in that input, and its
  result is determined by the service's answer to that request in the same way.  A data
  URI \<open>data:mime;base64,payload\<close> without line terminators and without a semicolon in
  the mime type is matched into exactly its mime type and payload.
\<close>

theorem generate_sends_source_adjust_sends_view:
  "(cursor_ok st \<and> originalImage st = Some orig \<longrightarrow>
      generateRequest (st\<lparr>history := hs, historyIndex := i\<rparr>) p = generateRequest st p
    \<and> (\<exists>req. generateRequest st p = Some req
          \<and> req_base64 req = (case js_split CHR '','' (originalData orig) of
                                 _ # b # _ \<Rightarrow> Some b | _ \<Rightarrow> None)
          \<and> req_mimeType req = mimeType orig
          \<and> req_prompt req = p
          \<and> (originalData orig = pre @ '','' @ body \<and>
                CHR '','' \<notin> set pre \<and> CHR '','' \<notin> set body \<longrightarrow>
                req_base64 req = Some body)
          \<and> handleGenerate cv edit st p =
              (case edit req of
                 Throws msg \<Rightarrow>
                   st\<lparr>error := Some (message_or msg ''Something went wrong during generation.''),
                      appState := ERROR\<rparr>
               | Returns r \<Rightarrow>
                   st\<lparr>error := None,
                      history := take (nat (historyIndex st + 1)) (history st) @
                        [\<lparr>item_image =
                            resizeImage cv (''data:image/png;base64,'' @ r) (width st) (height st),
                          item_prompt = p, item_width = width st, item_height = height st\<rparr>],
                      historyIndex := historyIndex st + 1,
                      appState := COMPLETE\<rparr>)))
 \<and> (((cursor_ok st \<and> 0 \<le> historyIndex st \<and>
        src = item_image (history st ! nat (historyIndex st)))
      \<or> (historyIndex st = - 1 \<and> originalImage st = Some orig \<and> src = originalData orig))
     \<and> src \<noteq> [] \<and> match_data_uri src = Some (mime, payload) \<longrightarrow>
      sourceImage st = Inr (Some src)
    \<and> handleDenoise cv edit st =
        Inr (case edit \<lparr>req_base64 = Some payload, req_mimeType = mime,
                        req_prompt = denoisePrompt,
                        req_aspectRatio = getClosestAspectRatio (width st) (height st)\<rparr> of
               Throws msg \<Rightarrow>
                 st\<lparr>error := Some (message_or msg ''Denoising failed.''), appState := ERROR\<rparr>
             | Returns r \<Rightarrow>
                 st\<lparr>error := None,
                    history := take (nat (historyIndex st + 1)) (history st) @
                      [\<lparr>item_image =
                          resizeImage cv (''data:image/png;base64,'' @ r) (width st) (height st),
                        item_prompt = ''Remove Noise (AI)'', item_width = width st,
                        item_height = height st\<rparr>],
                    historyIndex := historyIndex st + 1,
                    prompt := ''Remove Noise (AI)'',
                    appState := COMPLETE\<rparr>)
    \<and> handleAutoEnhance cv edit st =
        Inr (case edit \<lparr>req_base64 = Some payload, req_mimeType = mime,
                        req_prompt = enhancePrompt,
                        req_aspectRatio = getClosestAspectRatio (width st) (height st)\<rparr> of
               Throws msg \<Rightarrow>
                 st\<lparr>error := Some (message_or msg ''Auto enhancement failed.''),
                    appState := ERROR\<rparr>
             | Returns r \<Rightarrow>
                 st\<lparr>error := None,
                    history := take (nat (historyIndex st + 1)) (history st) @
                      [\<lparr>item_image =
                          resizeImage cv (''data:image/png;base64,'' @ r) (width st) (height st),
                        item_prompt = ''Auto Enhance (AI)'', item_width = width st,
                        item_height = height st\<rparr>],
                    historyIndex := historyIndex st + 1,
                    prompt := ''Auto Enhance (AI)'',
                    appState := COMPLETE\<rparr>))
 \<and> (\<not> list_ex line_terminator (mime @ payload) \<and> CHR '';'' \<notin> set mime \<longrightarrow>
      match_data_uri (''data:'' @ mime @ '';base64,'' @ payload) = Some (mime, payload))"
proof (intro conjI impI)
  assume a: "cursor_ok st \<and> originalImage st = Some orig"
  then have o: "originalImage st = Some orig" and ok: "cursor_ok st" by simp_all
  from o show "generateRequest (st\<lparr>history := hs, historyIndex := i\<rparr>) p = generateRequest st p"
    by (simp add: generateRequest_def)
  let ?req = "\<lparr>req_base64 = (case js_split CHR '','' (originalData orig) of
                                 _ # b # _ \<Rightarrow> Some b | _ \<Rightarrow> None),
               req_mimeType = mimeType orig, req_prompt = p,
               req_aspectRatio = getClosestAspectRatio (width st) (height st)\<rparr>"
  from o have g: "generateRequest st p = Some ?req"
    by (simp add: generateRequest_def)
  have wf: "originalData orig = pre @ '','' @ body \<and>
      CHR '','' \<notin> set pre \<and> CHR '','' \<notin> set body \<longrightarrow> req_base64 ?req = Some body"
  proof
    assume "originalData orig = pre @ '','' @ body \<and>
      CHR '','' \<notin> set pre \<and> CHR '','' \<notin> set body"
    then have "js_split CHR '','' (originalData orig) = [pre, body]"
      using js_split_at_separator [of "CHR '',''" pre body] by simp
    then show "req_base64 ?req = Some body" by simp
  qed
  note out = handleGenerate_outcome [OF ok g, of cv edit]
  from g wf out
  show "\<exists>req. generateRequest st p = Some req
          \<and> req_base64 req = (case js_split CHR '','' (originalData orig) of
                                 _ # b # _ \<Rightarrow> Some b | _ \<Rightarrow> None)
          \<and> req_mimeType req = mimeType orig
          \<and> req_prompt req = p
          \<and> (originalData orig = pre @ '','' @ body \<and>
                CHR '','' \<notin> set pre \<and> CHR '','' \<notin> set body \<longrightarrow>
                req_base64 req = Some body)
          \<and> handleGenerate cv edit st p =
              (case edit req of
                 Throws msg \<Rightarrow>
                   st\<lparr>error := Some (message_or msg ''Something went wrong during generation.''),
                      appState := ERROR\<rparr>
               | Returns r \<Rightarrow>
                   st\<lparr>error := None,
                      history := take (nat (historyIndex st + 1)) (history st) @
                        [\<lparr>item_image =
                            resizeImage cv (''data:image/png;base64,'' @ r) (width st) (height st),
                          item_prompt = p, item_width = width st, item_height = height st\<rparr>],
                      historyIndex := historyIndex st + 1,
                      appState := COMPLETE\<rparr>)"
    by (intro exI [of _ ?req]) simp
next
  assume a: "((cursor_ok st \<and> 0 \<le> historyIndex st \<and>
        src = item_image (history st ! nat (historyIndex st)))
      \<or> (historyIndex st = - 1 \<and> originalImage st = Some orig \<and> src = originalData orig))
     \<and> src \<noteq> [] \<and> match_data_uri src = Some (mime, payload)"
  then have ne: "src \<noteq> []" and m: "match_data_uri src = Some (mime, payload)" by simp_all
  from a sourceImage_cases [of st src orig]
  have ok: "cursor_ok st" and s: "sourceImage st = Inr (Some src)" by blast+
  from m have r: "adjustRequest st src ins =
      Some \<lparr>req_base64 = Some payload, req_mimeType = mime, req_prompt = ins,
            req_aspectRatio = getClosestAspectRatio (width st) (height st)\<rparr>" for ins
    by (simp add: adjustRequest_def)
  from s show "sourceImage st = Inr (Some src)" .
  show "handleDenoise cv edit st =
        Inr (case edit \<lparr>req_base64 = Some payload, req_mimeType = mime,
                        req_prompt = denoisePrompt,
                        req_aspectRatio = getClosestAspectRatio (width st) (height st)\<rparr> of
               Throws msg \<Rightarrow>
                 st\<lparr>error := Some (message_or msg ''Denoising failed.''), appState := ERROR\<rparr>
             | Returns r \<Rightarrow>
                 st\<lparr>error := None,
                    history := take (nat (historyIndex st + 1)) (history st) @
                      [\<lparr>item_image =
                          resizeImage cv (''data:image/png;base64,'' @ r) (width st) (height st),
                        item_prompt = ''Remove Noise (AI)'', item_width = width st,
                        item_height = height st\<rparr>],
                    historyIndex := historyIndex st + 1,
                    prompt := ''Remove Noise (AI)'',
                    appState := COMPLETE\<rparr>)"
    unfolding handleDenoise_def by (rule handleAdjust_outcome [OF ok s ne r])
  show "handleAutoEnhance cv edit st =
        Inr (case edit \<lparr>req_base64 = Some payload, req_mimeType = mime,
                        req_prompt = enhancePrompt,
                        req_aspectRatio = getClosestAspectRatio (width st) (height st)\<rparr> of
               Throws msg \<Rightarrow>
                 st\<lparr>error := Some (message_or msg ''Auto enhancement failed.''),
                    appState := ERROR\<rparr>
             | Returns r \<Rightarrow>
                 st\<lparr>error := None,
                    history := take (nat (historyIndex st + 1)) (history st) @
                      [\<lparr>item_image =
                          resizeImage cv (''data:image/png;base64,'' @ r) (width st) (height st),
                        item_prompt = ''Auto Enhance (AI)'', item_width = width st,
                        item_height = height st\<rparr>],
                    historyIndex := historyIndex st + 1,
                    prompt := ''Auto Enhance (AI)'',
                    appState := COMPLETE\<rparr>)"
    unfolding handleAutoEnhance_def by (rule handleAdjust_outcome [OF ok s ne r])
next
  assume "\<not> list_ex line_terminator (mime @ payload) \<and> CHR '';'' \<notin> set mime"
  then show "match_data_uri (''data:'' @ mime @ '';base64,'' @ payload) = Some (mime, payload)"
    using match_data_uri_wellformed [of mime payload] by blast
qed

theorem generate_sends_source_adjust_sends_view_witness:
  "cursor_ok sample_state \<and> originalImage sample_state = Some sample_png
 \<and> originalData sample_png = ''data:image/png;base64'' @ '','' @ ''AAAA''
 \<and> CHR '','' \<notin> set ''data:image/png;base64'' \<and> CHR '','' \<notin> set ''AAAA''
 \<and> 0 \<le> historyIndex sample_state
 \<and> ''data:image/png;base64,QUJD'' =
      item_image (history sample_state ! nat (historyIndex sample_state))
 \<and> match_data_uri ''data:image/png;base64,QUJD'' = Some (''image/png'', ''QUJD'')
 \<and> map item_image (history (handleGenerate no_canvas gateway_echo sample_state ''C'')) =
      [''data:image/png;base64,QUJD'', ''data:image/png;base64,AAAA'']
 \<and> map_sum id (map item_image \<circ> history) (handleDenoise no_canvas gateway_echo sample_state) =
      Inr [''data:image/png;base64,QUJD'', ''data:image/png;base64,QUJD'']
 \<and> map_sum id (map item_image \<circ> history)
      (handleAutoEnhance no_canvas gateway_echo sample_state) =
      Inr [''data:image/png;base64,QUJD'', ''data:image/png;base64,QUJD'']
 \<and> historyIndex (handleImageSelected initialApp sample_png) = - 1
 \<and> originalImage (handleImageSelected initialApp sample_png) = Some sample_png
 \<and> match_data_uri ''data:image/png;base64,AAAA'' = Some (''image/png'', ''AAAA'')
 \<and> map_sum id (map item_image \<circ> history)
      (handleDenoise no_canvas gateway_echo (handleImageSelected initialApp sample_png)) =
      Inr [''data:image/png;base64,AAAA'']
 \<and> \<not> list_ex line_terminator (''image/png'' @ ''QUJD'') \<and> CHR '';'' \<notin> set ''image/png''"
proof -
  have ok: "cursor_ok sample_state" and i: "0 \<le> historyIndex sample_state"
    by (simp_all add: cursor_ok_def sample_state_def)
  have o: "originalImage sample_state = Some sample_png"
    by (simp add: sample_state_def)
  have od: "originalData sample_png = ''data:image/png;base64'' @ '','' @ ''AAAA''"
    by (simp add: sample_png_def)
  have nc: "CHR '','' \<notin> set ''data:image/png;base64'' \<and> CHR '','' \<notin> set ''AAAA''"
    by simp
  have img: "''data:image/png;base64,QUJD'' =
      item_image (history sample_state ! nat (historyIndex sample_state))"
    by (simp add: sample_state_def)
  have hist: "take (nat (historyIndex sample_state + 1)) (history sample_state) =
      [\<lparr>item_image = ''data:image/png;base64,QUJD'', item_prompt = ''A'',
        item_width = 1024, item_height = 1024\<rparr>]"
    by (simp add: sample_state_def)
  have i0: "historyIndex (handleImageSelected initialApp sample_png) = - 1"
    and o0: "originalImage (handleImageSelected initialApp sample_png) = Some sample_png"
    and h0: "history (handleImageSelected initialApp sample_png) = []"
    by (simp_all add: handleImageSelected_def)
  have nl: "\<not> list_ex line_terminator (''image/png'' @ ''QUJD'') \<and> CHR '';'' \<notin> set ''image/png''"
    by (simp add: line_terminator_def)
  have m: "match_data_uri ''data:image/png;base64,QUJD'' = Some (''image/png'', ''QUJD'')"
    and m0: "match_data_uri ''data:image/png;base64,AAAA'' = Some (''image/png'', ''AAAA'')"
    by (simp_all add: match_data_uri_def line_terminator_def)
  have ne: "''data:image/png;base64,QUJD'' \<noteq> []" "''data:image/png;base64,AAAA'' \<noteq> []"
    by simp_all
  have rs: "resizeImage no_canvas x w h = x" for x w h
    by (simp add: resizeImage_def no_canvas_def)
  note inst = generate_sends_source_adjust_sends_view
    [where st = sample_state and orig = sample_png and p = "''C''"
       and pre = "''data:image/png;base64''" and body = "''AAAA''"
       and hs = "[]" and i = "- 1" and edit = gateway_echo and cv = no_canvas
       and src = "''data:image/png;base64,QUJD''" and mime = "''image/png''"
       and payload = "''QUJD''"]
  note gen = inst [THEN conjunct1, THEN mp, OF conjI [OF ok o], THEN conjunct2]
  from gen obtain req where req:
    "originalData sample_png = ''data:image/png;base64'' @ '','' @ ''AAAA'' \<and>
       CHR '','' \<notin> set ''data:image/png;base64'' \<and> CHR '','' \<notin> set ''AAAA'' \<longrightarrow>
       req_base64 req = Some ''AAAA''"
    "handleGenerate no_canvas gateway_echo sample_state ''C'' =
      (case gateway_echo req of
         Throws msg \<Rightarrow>
           sample_state\<lparr>error := Some (message_or msg ''Something went wrong during generation.''),
              appState := ERROR\<rparr>
       | Returns r \<Rightarrow>
           sample_state\<lparr>error := None,
              history := take (nat (historyIndex sample_state + 1)) (history sample_state) @
                [\<lparr>item_image =
                    resizeImage no_canvas (''data:image/png;base64,'' @ r)
                      (width sample_state) (height sample_state),
                  item_prompt = ''C'', item_width = width sample_state,
                  item_height = height sample_state\<rparr>],
              historyIndex := historyIndex sample_state + 1,
              appState := COMPLETE\<rparr>)"
    by blast
  from req(1) od nc have "gateway_echo req = Returns ''AAAA''"
    by (simp add: gateway_echo_def)
  with req(2) have g: "map item_image
      (history (handleGenerate no_canvas gateway_echo sample_state ''C'')) =
      [''data:image/png;base64,QUJD'', ''data:image/png;base64,AAAA'']"
    by (simp add: hist rs)
  note adj = inst [THEN conjunct2, THEN conjunct1, THEN mp,
      OF conjI [OF disjI1 [OF conjI [OF ok conjI [OF i img]]] conjI [OF ne(1) m]]]
  from adj have d: "map_sum id (map item_image \<circ> history)
      (handleDenoise no_canvas gateway_echo sample_state) =
      Inr [''data:image/png;base64,QUJD'', ''data:image/png;base64,QUJD'']"
    and e: "map_sum id (map item_image \<circ> history)
      (handleAutoEnhance no_canvas gateway_echo sample_state) =
      Inr [''data:image/png;base64,QUJD'', ''data:image/png;base64,QUJD'']"
    by (simp_all add: gateway_echo_def hist rs)
  note adj0 = generate_sends_source_adjust_sends_view
    [where st = "handleImageSelected initialApp sample_png" and orig = sample_png
       and edit = gateway_echo and cv = no_canvas
       and src = "''data:image/png;base64,AAAA''" and mime = "''image/png''"
       and payload = "''AAAA''",
     THEN conjunct2, THEN conjunct1, THEN mp]
  have "originalData sample_png = ''data:image/png;base64,AAAA''"
    by (simp add: sample_png_def)
  with adj0 i0 o0 ne(2) m0
  have d0: "map_sum id (map item_image \<circ> history)
      (handleDenoise no_canvas gateway_echo (handleImageSelected initialApp sample_png)) =
      Inr [''data:image/png;base64,AAAA'']"
    by (simp add: gateway_echo_def h0 rs)
  from ok o od nc i img m g d e i0 o0 m0 d0 nl
  show ?thesis by (intro conjI) (simp_all only: simp_thms)
qed

end
